theory Spec2Isabelle
  imports Main "HOL-Library.Sublist"
begin

section \<open>Strings, regular expressions and dictionaries of \<open>lint/scheme.py\<close>\<close>

text \<open>
  A Python \<open>str\<close> is modelled as a \<open>string\<close> whose characters are the code points
  below 256. The character classes are the ones Python 3 uses for \<open>str\<close> patterns and
  for \<open>str.split()\<close> on that range: \<open>\<bsol>d\<close> is a decimal digit, \<open>\<bsol>w\<close> is an
  alphanumeric character or the underscore, white space is what \<open>str.isspace\<close> accepts.
\<close>

definition is_digit :: "char \<Rightarrow> bool" where
  "is_digit c = (let n = (of_char c :: nat) in 48 \<le> n \<and> n \<le> 57)"

definition is_word :: "char \<Rightarrow> bool" where
  "is_word c =
     (let n = (of_char c :: nat) in
        (48 \<le> n \<and> n \<le> 57) \<or> (65 \<le> n \<and> n \<le> 90) \<or> n = 95 \<or> (97 \<le> n \<and> n \<le> 122)
        \<or> n = 170 \<or> n = 178 \<or> n = 179 \<or> n = 181 \<or> n = 185 \<or> n = 186
        \<or> n = 188 \<or> n = 189 \<or> n = 190
        \<or> (192 \<le> n \<and> n \<le> 255 \<and> n \<noteq> 215 \<and> n \<noteq> 247))"

definition is_space :: "char \<Rightarrow> bool" where
  "is_space c =
     (let n = (of_char c :: nat) in
        (9 \<le> n \<and> n \<le> 13) \<or> (28 \<le> n \<and> n \<le> 32) \<or> n = 133 \<or> n = 160)"

text \<open>
  \<open>str.split()\<close> without arguments: the maximal runs of characters that are not white
  space, in order; no empty strings. \<open>split_acc w s\<close> carries the run \<open>w\<close> read so far.
\<close>

fun split_acc :: "string \<Rightarrow> string \<Rightarrow> string list" where
  "split_acc w [] = (if w = [] then [] else [w])"
| "split_acc w (c # cs) =
     (if is_space c then (if w = [] then split_acc [] cs else w # split_acc [] cs)
      else split_acc (w @ [c]) cs)"

definition str_split :: "string \<Rightarrow> string list" where
  "str_split s = split_acc [] s"

text \<open>
  The fragment of regular expressions that \<open>DYN_PAT\<close> is written in: a sequence of
  items, each one character (a literal or a class) or a repetition \<open>{n,}\<close> of one
  character. Whether a repetition is greedy or lazy (\<open>+?\<close>) changes which match is
  found, not whether there is one, and the code only asks whether there is one.
\<close>

datatype atom = Chr char | Word | Digit

datatype item = One atom | AtLeast nat atom

fun accepts :: "atom \<Rightarrow> char \<Rightarrow> bool" where
  "accepts (Chr a) c = (c = a)"
| "accepts Word c = is_word c"
| "accepts Digit c = is_digit c"

text \<open>\<open>pmatch p s\<close>: some prefix of \<open>s\<close> is matched by the pattern \<open>p\<close>.\<close>

fun pmatch :: "item list \<Rightarrow> string \<Rightarrow> bool" where
  "pmatch [] s = True"
| "pmatch (One a # p) [] = False"
| "pmatch (One a # p) (c # s) = (accepts a c \<and> pmatch p s)"
| "pmatch (AtLeast 0 a # p) [] = pmatch p []"
| "pmatch (AtLeast 0 a # p) (c # s) =
     (pmatch p (c # s) \<or> (accepts a c \<and> pmatch (AtLeast 0 a # p) s))"
| "pmatch (AtLeast (Suc n) a # p) [] = False"
| "pmatch (AtLeast (Suc n) a # p) (c # s) = (accepts a c \<and> pmatch (AtLeast n a # p) s)"

text \<open>\<open>re.match\<close> tries the pattern at the first character only.\<close>

definition re_match :: "item list \<Rightarrow> string \<Rightarrow> bool" where
  "re_match p s = pmatch p s"

text \<open>\<open>re.search\<close> tries it at every position, the end of the string included.\<close>

fun re_search :: "item list \<Rightarrow> string \<Rightarrow> bool" where
  "re_search p [] = pmatch p []"
| "re_search p (c # s) = (pmatch p (c # s) \<or> re_search p s)"

definition lit :: "string \<Rightarrow> item list" where
  "lit s = map (\<lambda>c. One (Chr c)) s"

text \<open>\<open>DYN_PAT = re.compile("sublimelinter\<bsol>.\<bsol>w+?\<bsol>.style_\<bsol>d{3,}")\<close>\<close>

definition DYN_PAT :: "item list" where
  "DYN_PAT = lit ''sublimelinter.'' @ [AtLeast 1 Word] @ lit ''.style_'' @ [AtLeast 3 Digit]"

text \<open>
  A rule of a JSON colour scheme and a node assembled by the JSON engine are dictionaries
  from strings to strings. The file is written with \<open>sort_keys=True\<close>, so the order of
  their keys is never observed: a map. The two registries are dictionaries whose order is
  observed (\<open>dynamic_nodes.values()\<close> is appended to the rule list): association lists,
  where storing under a key that is present keeps its place and a new key goes last.
\<close>

type_synonym rule = "string \<Rightarrow> string option"

type_synonym 'n registry = "(string \<times> 'n) list"

fun dict_set :: "string \<Rightarrow> 'n \<Rightarrow> 'n registry \<Rightarrow> 'n registry" where
  "dict_set k v [] = [(k, v)]"
| "dict_set k v (p # ps) = (if fst p = k then (k, v) # ps else p # dict_set k v ps)"

definition dict_values :: "'n registry \<Rightarrow> 'n list" where
  "dict_values d = map snd d"

definition dict_keys :: "'n registry \<Rightarrow> string list" where
  "dict_keys d = map fst d"

datatype error =
    AttributeError | TypeError | KeyError | IOError | ParseError | JSONDecodeError
  | UnknownExtension

section \<open>The structured differ: \<open>JsonScheme.parse_scheme_json\<close>\<close>

text \<open>
  The first argument is the dictionary \<open>static_nodes\<close> on the first call. On the second
  call it is what the first differ returned: again a dictionary after
  \<open>parse_scheme_json\<close>, but the list of scopes that \<open>parse_scheme_xml\<close> returns when the
  original theme is a tmTheme. \<open>set(nodes)\<close> works on both; \<open>nodes.items()\<close> raises
  \<open>AttributeError\<close> on a list.
\<close>

datatype nodes = NDict "rule registry" | NList "string list"

fun node_keys :: "nodes \<Rightarrow> string list" where
  "node_keys (NDict d) = dict_keys d"
| "node_keys (NList l) = l"

definition def_scopes :: "rule \<Rightarrow> string list" where
  "def_scopes node = str_split (case node ''scope'' of None \<Rightarrow> [] | Some s \<Rightarrow> s)"

text \<open>The loop over the rules; \<open>None\<close> is the early \<open>return {}\<close>.\<close>

fun unfound_loop :: "string set \<Rightarrow> rule list \<Rightarrow> string set option" where
  "unfound_loop unfound_keys [] = Some unfound_keys"
| "unfound_loop unfound_keys (node # rules) =
     (let unfound_keys' = unfound_keys - set (def_scopes node)
      in if unfound_keys' = {} then None else unfound_loop unfound_keys' rules)"

definition parse_scheme_json :: "nodes \<Rightarrow> rule list \<Rightarrow> error + rule registry" where
  "parse_scheme_json nds rules =
     (case unfound_loop (set (node_keys nds)) rules of
        None \<Rightarrow> Inr []
      | Some unfound_keys \<Rightarrow>
          (case nds of
             NDict d \<Rightarrow> Inr (filter (\<lambda>(k, v). k \<in> unfound_keys) d)
           | NList l \<Rightarrow> Inl AttributeError))"

text \<open>The scopes declared by a rule list, as the specification names them.\<close>

definition scopes_declared_in :: "rule list \<Rightarrow> string set" where
  "scopes_declared_in rules = (\<Union>node \<in> set rules. set (def_scopes node))"

section \<open>The state: the scheme object and the host\<close>

text \<open>
  A JSON colour scheme is an object with a \<open>"rules"\<close> array and other keys, whose values
  are not looked at. \<open>sublime.load_resource\<close> gives the text of a tmTheme and the parsed
  object of a JSON scheme. A file of the user directory holds either a JSON document
  (what \<open>json.dumps\<close> wrote, or what \<open>json.load\<close> reads back) or text that is no JSON
  document.
\<close>

record 'x theme =
  rules :: "rule list option"
  other_keys :: "string \<Rightarrow> 'x option"

datatype 'x resource = Text string | Parsed "'x theme"

datatype 'x disk_file = JsonFile "'x theme" | TextFile string

text \<open>
  The host: the resources of the packages, the files written with \<open>open\<close>, the
  \<open>color_scheme\<close> preference, the number of calls of \<open>sublime.save_settings\<close>, and the
  messages given to \<open>util.printf\<close>. The plain \<open>print\<close> calls are left out.
\<close>

record 'x host =
  load_resource :: "string \<Rightarrow> 'x resource option"
  find_resources :: "string \<Rightarrow> string list"
  files :: "string \<Rightarrow> 'x disk_file option"
  color_scheme :: string
  saved_settings :: nat
  printed :: "string list"

text \<open>\<open>self.paths\<close>, with the keys that the generation passes read.\<close>

record path_set =
  usr_dir :: string
  usr_dir_rel :: string
  usr_dir_abs :: string
  scheme_orig :: string
  scheme_name :: string
  ext :: string

record 'n scheme_obj =
  static_nodes :: "'n registry"
  dynamic_nodes :: "'n registry"
  scheme :: string
  paths :: path_set

text \<open>An element of \<open>xml.etree.ElementTree\<close>.\<close>

datatype xml =
  Element (tag: string) (attrib: "(string \<times> string) list") (etext: "string option")
    (etail: "string option") (children: "xml list")

text \<open>
  What the module takes from libraries that are not part of it: the XML parser and
  serialiser, the search for \<open>MARK_COLOR_RE\<close> (formatted with the escaped scope) in a
  text, \<open>str.upper\<close>, and \<open>util.get_path_components\<close>.
\<close>

record env =
  xml_parse :: "string \<Rightarrow> xml option"
  xml_tostring :: "xml \<Rightarrow> string"
  mark_color_search :: "string \<Rightarrow> string \<Rightarrow> bool"
  upper :: "string \<Rightarrow> string"
  get_path_components :: "string \<Rightarrow> string list"

section \<open>Paths and the original theme\<close>

text \<open>\<open>os.path.join\<close> and \<open>os.path.basename\<close> with \<open>/\<close> as the separator.\<close>

definition path_join :: "string \<Rightarrow> string \<Rightarrow> string" where
  "path_join a b =
     (if prefix ''/'' b then b
      else if a = [] \<or> suffix ''/'' a then a @ b
      else a @ ''/'' @ b)"

definition basename :: "string \<Rightarrow> string" where
  "basename p = rev (takeWhile (\<lambda>c. c \<noteq> CHR ''/'') (rev p))"

fun str_join :: "string \<Rightarrow> string list \<Rightarrow> string" where
  "str_join sep [] = []"
| "str_join sep [x] = x"
| "str_join sep (x # y # ys) = x @ sep @ str_join sep (y # ys)"

text \<open>\<open>sub in s\<close> for strings.\<close>

fun contains :: "string \<Rightarrow> string \<Rightarrow> bool" where
  "contains sub [] = (sub = [])"
| "contains sub (c # cs) = (prefix sub (c # cs) \<or> contains sub cs)"

text \<open>
  \<open>re.sub(r" ?\<bsol>(SL\<bsol>) ?|hidden-", "", s)\<close>. \<open>marker_len s\<close> is the length of the match
  at the start of \<open>s\<close>, 0 when there is none: the first alternative with its two
  optional spaces taken greedily, then the second alternative.
\<close>

definition marker_len :: "string \<Rightarrow> nat" where
  "marker_len s =
     (if prefix '' (SL) '' s then 6
      else if prefix '' (SL)'' s then 5
      else if prefix ''(SL) '' s then 5
      else if prefix ''(SL)'' s then 4
      else if prefix ''hidden-'' s then 7
      else 0)"

function sub_markers :: "string \<Rightarrow> string" where
  "sub_markers s =
     (if s = [] then []
      else if marker_len s = 0 then hd s # sub_markers (tl s)
      else sub_markers (drop (marker_len s) s))"
  by pat_completeness auto
termination
  by (relation "measure length") auto

declare sub_markers.simps [simp del]

definition get_original_theme :: "'x host \<Rightarrow> string \<Rightarrow> string" where
  "get_original_theme h current_scheme_path =
     (let current_scheme_file = basename current_scheme_path;
          pattern = sub_markers current_scheme_file;
          theme_list = filter (\<lambda>t. \<not> contains ''Packages/User/'' t) (find_resources h pattern)
      in case theme_list of [] \<Rightarrow> current_scheme_path | t # _ \<Rightarrow> t)"

section \<open>The shared operations of \<open>Scheme\<close>\<close>

definition parse_scheme_xml :: "env \<Rightarrow> string list \<Rightarrow> string \<Rightarrow> string list" where
  "parse_scheme_xml e nds txt = filter (\<lambda>scope. \<not> mark_color_search e scope txt) nds"

definition set_scheme_path :: "'n scheme_obj \<Rightarrow> string \<Rightarrow> 'x host \<Rightarrow> 'x host" where
  "set_scheme_path self path h =
     (if path \<noteq> scheme self then
        h\<lparr>color_scheme := path,
          saved_settings := Suc (saved_settings h),
          printed := printed h @ [''New scheme path detected. Updating.'']\<rparr>
      else h\<lparr>printed := printed h @ [''Old scheme path detected. Pass.'']\<rparr>)"

definition unfound_scopes_dialogue :: "string list \<Rightarrow> 'x host \<Rightarrow> 'x host" where
  "unfound_scopes_dialogue unfound h =
     h\<lparr>printed := printed h @
        [''The following scopes have not been found in the color scheme:'' @ [CHR 0x0A]
           @ str_join [CHR 0x0A] unfound]\<rparr>"

text \<open>\<open>if not name: name = scope\<close>: \<open>None\<close> and the empty string are both false.\<close>

definition default_name :: "string \<Rightarrow> string option \<Rightarrow> string" where
  "default_name scope name =
     (case name of None \<Rightarrow> scope | Some n \<Rightarrow> if n = [] then scope else n)"

section \<open>The JSON engine\<close>

definition used_keys :: "string set" where
  "used_keys = {''foreground'', ''background'', ''font_style''}"

definition json_husk :: "string \<Rightarrow> (string \<Rightarrow> string option) \<Rightarrow> string option \<Rightarrow> rule" where
  "json_husk scope input_dict name =
     [''scope'' \<mapsto> scope, ''name'' \<mapsto> default_name scope name] ++ (input_dict |` used_keys)"

definition assemble_node_json ::
  "rule scheme_obj \<Rightarrow> string \<Rightarrow> (string \<Rightarrow> string option) \<Rightarrow> string option \<Rightarrow> rule scheme_obj"
where
  "assemble_node_json self scope input_dict name =
     (let husk = json_husk scope input_dict name
      in if re_match DYN_PAT scope
         then self\<lparr>dynamic_nodes := dict_set scope husk (dynamic_nodes self)\<rparr>
         else self\<lparr>static_nodes := dict_set scope husk (static_nodes self)\<rparr>)"

fun remove_dyn_rules :: "rule list \<Rightarrow> rule list" where
  "remove_dyn_rules [] = []"
| "remove_dyn_rules (r # rs) =
     (case r ''scope'' of
        None \<Rightarrow> remove_dyn_rules rs
      | Some s \<Rightarrow> if \<not> re_search DYN_PAT s then r # remove_dyn_rules rs
                  else remove_dyn_rules rs)"

text \<open>
  Lines 287 to 295: the first differ, chosen by the extension. A resource of the
  wrong kind makes the differ raise: a text has no \<open>get\<close>, and \<open>re.search\<close> on an
  object raises as soon as there is a scope to search for.
\<close>

definition first_unfound :: "env \<Rightarrow> rule scheme_obj \<Rightarrow> 'x resource \<Rightarrow> error + nodes" where
  "first_unfound e self scheme_text =
     (if ext (paths self) = ''.sublime-color-scheme'' then
        (case scheme_text of
           Parsed t \<Rightarrow>
             (case parse_scheme_json (NDict (static_nodes self))
                     (case rules t of None \<Rightarrow> [] | Some rs \<Rightarrow> rs) of
                Inl err \<Rightarrow> Inl err
              | Inr d \<Rightarrow> Inr (NDict d))
         | Text txt \<Rightarrow> Inl AttributeError)
      else if suffix ''tmTheme'' (ext (paths self)) then
        (case scheme_text of
           Text txt \<Rightarrow> Inr (NList (parse_scheme_xml e (dict_keys (static_nodes self)) txt))
         | Parsed t \<Rightarrow> if static_nodes self = [] then Inr (NList []) else Inl TypeError)
      else Inl UnknownExtension)"

text \<open>
  Lines 315 to 322, for the rules \<open>old_rules\<close> of the file that is already there: the
  second differ with its notice, then the rules that are kept.
\<close>

definition merge_old_rules ::
  "nodes \<Rightarrow> rule list \<Rightarrow> 'x host \<Rightarrow> error + (rule list \<times> 'x host)"
where
  "merge_old_rules unfound old_rules h =
     (if old_rules = [] then Inr ([], h)
      else if node_keys unfound = [] then Inr (remove_dyn_rules old_rules, h)
      else
        (case parse_scheme_json unfound old_rules of
           Inl err \<Rightarrow> Inl err
         | Inr unfound' \<Rightarrow>
             Inr (remove_dyn_rules old_rules,
                  if unfound' = [] then h
                  else unfound_scopes_dialogue (dict_keys unfound') h)))"

definition new_scheme_path :: "'n scheme_obj \<Rightarrow> string" where
  "new_scheme_path self =
     path_join (usr_dir (paths self)) (scheme_name (paths self) @ ''.sublime-color-scheme'')"

text \<open>
  Lines 306 to 322: the theme object and the content of \<open>theme["rules"]\<close> that the
  dynamic nodes are appended to. \<open>theme["rules"]\<close> raises \<open>KeyError\<close> when the file
  that is there has no \<open>"rules"\<close>.
\<close>

definition load_theme ::
  "nodes \<Rightarrow> 'x disk_file option \<Rightarrow> 'x host \<Rightarrow> error + ('x theme \<times> rule list \<times> 'x host)"
where
  "load_theme unfound f h =
     (case f of
        None \<Rightarrow> Inr (\<lparr>rules = Some [], other_keys = Map.empty\<rparr>, [], h)
      | Some (TextFile txt) \<Rightarrow> Inl JSONDecodeError
      | Some (JsonFile theme) \<Rightarrow>
          (case rules theme of
             None \<Rightarrow> Inl KeyError
           | Some old_rules \<Rightarrow>
               (case merge_old_rules unfound old_rules h of
                  Inl err \<Rightarrow> Inl err
                | Inr (cleaned_rules, h') \<Rightarrow> Inr (theme, cleaned_rules, h'))))"

text \<open>
  A pass returns the host after it, or the exception that left it. Every exception of
  a pass is raised before its first effect, so the host is then as it was.
\<close>

definition generate_color_scheme_async_json ::
  "env \<Rightarrow> rule scheme_obj \<Rightarrow> 'x host \<Rightarrow> error + 'x host"
where
  "generate_color_scheme_async_json e self h =
     (let original_scheme = get_original_theme h (scheme self) in
      case load_resource h original_scheme of
        None \<Rightarrow> Inl IOError
      | Some scheme_text \<Rightarrow>
          (case first_unfound e self scheme_text of
             Inl err \<Rightarrow> Inl err
           | Inr unfound \<Rightarrow>
               if node_keys unfound = [] \<and> dynamic_nodes self = [] then Inr h
               else
                 (case load_theme unfound (files h (new_scheme_path self)) h of
                    Inl err \<Rightarrow> Inl err
                  | Inr (theme, kept, h') \<Rightarrow>
                      let theme' = theme\<lparr>rules := Some (kept @ dict_values (dynamic_nodes self))\<rparr>;
                          h'' = h'\<lparr>files := (files h')(new_scheme_path self \<mapsto> JsonFile theme')\<rparr>
                      in Inr (set_scheme_path self (scheme_orig (paths self)) h''))))"

section \<open>The XML engine\<close>

definition COLOR_SCHEME_PREAMBLE :: string where
  \<open>COLOR_SCHEME_PREAMBLE =
     ''<?xml version="1.0" encoding="UTF-8"?>'' @ [CHR 0x0A] @
     ''<!DOCTYPE plist PUBLIC "-//Apple//DTD PLIST 1.0//EN" "http://www.apple.com/DTDs/PropertyList-1.0.dtd">''
     @ [CHR 0x0A]\<close>

definition sub_element :: "string \<Rightarrow> string option \<Rightarrow> xml list \<Rightarrow> xml" where
  "sub_element t txt cs = Element t [] txt None cs"

definition append_kv :: "string \<Rightarrow> string \<Rightarrow> xml list" where
  "append_kv first second = [sub_element ''key'' (Some first) [], sub_element ''string'' (Some second) []]"

text \<open>\<open>if input_dict.get(k)\<close>: the key is there and its value is not empty.\<close>

definition styled :: "env \<Rightarrow> (string \<Rightarrow> string option) \<Rightarrow> string \<Rightarrow> string \<Rightarrow> bool \<Rightarrow> xml list" where
  "styled e input_dict k xml_key up =
     (case input_dict k of
        None \<Rightarrow> []
      | Some v \<Rightarrow> if v = [] then [] else append_kv xml_key (if up then upper e v else v))"

definition xml_root :: "env \<Rightarrow> string \<Rightarrow> (string \<Rightarrow> string option) \<Rightarrow> string option \<Rightarrow> xml" where
  "xml_root e scope input_dict name =
     (let d = sub_element ''dict'' None
                (styled e input_dict ''foreground'' ''foreground'' True
                 @ styled e input_dict ''background'' ''background'' True
                 @ styled e input_dict ''font_style'' ''fontStyle'' False)
      in Element ''dict'' [] None None
           (append_kv ''name'' (default_name scope name) @ append_kv ''scope'' scope
            @ [sub_element ''key'' (Some ''settings'') [], d]))"

definition assemble_node_xml ::
  "env \<Rightarrow> xml scheme_obj \<Rightarrow> string \<Rightarrow> (string \<Rightarrow> string option) \<Rightarrow> string option \<Rightarrow> xml scheme_obj"
where
  "assemble_node_xml e self scope input_dict name =
     (let root = xml_root e scope input_dict name
      in if re_match DYN_PAT scope
         then self\<lparr>dynamic_nodes := dict_set scope root (dynamic_nodes self)\<rparr>
         else self\<lparr>static_nodes := dict_set scope root (static_nodes self)\<rparr>)"

definition packages_relative_path :: "env \<Rightarrow> string \<Rightarrow> string" where
  "packages_relative_path e path =
     (let components = get_path_components e path;
          components' = (case components of
                           [] \<Rightarrow> []
                         | c # cs \<Rightarrow> if c \<noteq> ''Packages'' then ''Packages'' # c # cs else c # cs)
      in str_join ''/'' components')"

text \<open>
  \<open>plist.find('./dict/array')\<close> followed by \<open>styles.extend(new)\<close>: the first \<open>array\<close>
  child of a \<open>dict\<close> child of the root, in document order, gets the new elements at
  its end. \<open>None\<close> when there is no such element (\<open>find\<close> returns \<open>None\<close>, whose
  \<open>extend\<close> raises).
\<close>

fun extend_first_array :: "xml list \<Rightarrow> xml list \<Rightarrow> xml list option" where
  "extend_first_array new [] = None"
| "extend_first_array new (c # cs) =
     (if tag c = ''array''
      then Some (Element (tag c) (attrib c) (etext c) (etail c) (children c @ new) # cs)
      else map_option (\<lambda>cs'. c # cs') (extend_first_array new cs))"

fun extend_in_dicts :: "xml list \<Rightarrow> xml list \<Rightarrow> xml list option" where
  "extend_in_dicts new [] = None"
| "extend_in_dicts new (d # ds) =
     (case (if tag d = ''dict'' then extend_first_array new (children d) else None) of
        Some cs' \<Rightarrow> Some (Element (tag d) (attrib d) (etext d) (etail d) cs' # ds)
      | None \<Rightarrow> map_option (\<lambda>ds'. d # ds') (extend_in_dicts new ds))"

definition extend_styles :: "xml list \<Rightarrow> xml \<Rightarrow> xml option" where
  "extend_styles new plist =
     map_option (Element (tag plist) (attrib plist) (etext plist) (etail plist))
       (extend_in_dicts new (children plist))"

definition mod_scheme_path :: "'n scheme_obj \<Rightarrow> string" where
  "mod_scheme_path self =
     path_join (usr_dir_abs (paths self))
       ((scheme_name (paths self) @ '' (SL)'') @ ''.hidden-tmTheme'')"

definition generate_color_scheme_async_xml ::
  "env \<Rightarrow> xml scheme_obj \<Rightarrow> 'x host \<Rightarrow> error + 'x host"
where
  "generate_color_scheme_async_xml e self h =
     (case load_resource h (scheme_orig (paths self)) of
        None \<Rightarrow> Inl IOError
      | Some (Parsed t) \<Rightarrow> Inl TypeError
      | Some (Text scheme_text) \<Rightarrow>
          (case xml_parse e scheme_text of
             None \<Rightarrow> Inl ParseError
           | Some plist \<Rightarrow>
               (case extend_styles (dict_values (dynamic_nodes self)) plist of
                  None \<Rightarrow> Inl AttributeError
                | Some plist' \<Rightarrow>
                    let unfound = parse_scheme_xml e (dict_keys (static_nodes self)) scheme_text;
                        h1 = (if unfound \<noteq> [] then unfound_scopes_dialogue unfound h else h);
                        content = xml_tostring e plist';
                        h2 = h1\<lparr>files := (files h1)(mod_scheme_path self \<mapsto>
                                TextFile (COLOR_SCHEME_PREAMBLE @ content))\<rparr>;
                        scheme_path_rel = packages_relative_path e
                          (path_join (usr_dir_rel (paths self)) (basename (mod_scheme_path self)))
                    in Inr (set_scheme_path self scheme_path_rel h2))))"

section \<open>Notions of the specification\<close>

text \<open>
  A string starts with the dynamic pattern: \<open>sublimelinter.\<close>, a word, \<open>.style_\<close>, a
  number of at least three digits, and then anything.
\<close>

definition starts_with_dyn_pattern :: "string \<Rightarrow> bool" where
  "starts_with_dyn_pattern s \<longleftrightarrow>
     (\<exists>w n rest. s = ''sublimelinter.'' @ w @ ''.style_'' @ n @ rest
        \<and> w \<noteq> [] \<and> list_all is_word w \<and> 3 \<le> length n \<and> list_all is_digit n)"

text \<open>A string contains the dynamic pattern somewhere.\<close>

definition contains_dyn_pattern :: "string \<Rightarrow> bool" where
  "contains_dyn_pattern s \<longleftrightarrow> (\<exists>pre post. s = pre @ post \<and> starts_with_dyn_pattern post)"

text \<open>A dynamic rule: a rule with a scope that contains the dynamic pattern.\<close>

definition is_dynamic_rule :: "rule \<Rightarrow> bool" where
  "is_dynamic_rule r \<longleftrightarrow> (\<exists>s. r ''scope'' = Some s \<and> contains_dyn_pattern s)"

text \<open>A rule that \<open>remove_dyn_rules\<close> is to keep: it has a scope, without the pattern.\<close>

definition is_kept_rule :: "rule \<Rightarrow> bool" where
  "is_kept_rule r \<longleftrightarrow> (\<exists>s. r ''scope'' = Some s \<and> \<not> contains_dyn_pattern s)"

text \<open>
  The registry of dynamic nodes as \<open>assemble_node\<close> of the JSON engine fills it: under
  each key a node whose scope is the key, and the key matches \<open>DYN_PAT\<close>.
\<close>

definition dyn_registry_ok :: "rule registry \<Rightarrow> bool" where
  "dyn_registry_ok d = list_all (\<lambda>(k, v). v ''scope'' = Some k \<and> re_match DYN_PAT k) d"

text \<open>Line 297: the pass of the JSON engine finds nothing to include.\<close>

definition nothing_to_include :: "env \<Rightarrow> rule scheme_obj \<Rightarrow> 'x host \<Rightarrow> bool" where
  "nothing_to_include e self h =
     (case load_resource h (get_original_theme h (scheme self)) of
        None \<Rightarrow> False
      | Some scheme_text \<Rightarrow>
          (case first_unfound e self scheme_text of
             Inl err \<Rightarrow> False
           | Inr unfound \<Rightarrow> node_keys unfound = [] \<and> dynamic_nodes self = []))"

section \<open>A concrete installation\<close>

text \<open>
  The theme Monokai of the package \<open>Color Scheme - Default\<close>, once as a JSON scheme and
  once as a tmTheme, with the style set of the end-to-end examples: the static scope
  \<open>sublimelinter.mark.error\<close> and the dynamic scope \<open>sublimelinter.gutter.style_001\<close>.
\<close>

definition ascii_upper :: "string \<Rightarrow> string" where
  "ascii_upper s =
     map (\<lambda>c. if 97 \<le> (of_char c :: nat) \<and> (of_char c :: nat) \<le> 122
              then char_of ((of_char c :: nat) - 32) else c) s"

fun components_acc :: "string \<Rightarrow> string \<Rightarrow> string list" where
  "components_acc w [] = (if w = [] then [] else [w])"
| "components_acc w (c # cs) =
     (if c = CHR ''/'' then (if w = [] then components_acc [] cs else w # components_acc [] cs)
      else components_acc (w @ [c]) cs)"

fun render :: "xml \<Rightarrow> string" where
  "render (Element t a tx ta cs) =
     ''<'' @ t @ ''>'' @ (case tx of None \<Rightarrow> [] | Some x \<Rightarrow> x) @ concat (map render cs)
     @ ''</'' @ t @ ''>'' @ (case ta of None \<Rightarrow> [] | Some x \<Rightarrow> x)"

definition monokai_xml_text :: string where
  "monokai_xml_text = ''<plist><dict><key>settings</key><array></array></dict></plist>''"

definition monokai_plist :: xml where
  "monokai_plist =
     Element ''plist'' [] None None
       [Element ''dict'' [] None None
          [Element ''key'' [] (Some ''settings'') None [], Element ''array'' [] None None []]]"

definition ex_env :: env where
  "ex_env =
     \<lparr>xml_parse = (\<lambda>s. if s = monokai_xml_text then Some monokai_plist else None),
      xml_tostring = render,
      mark_color_search = (\<lambda>scope txt. contains scope txt),
      upper = ascii_upper,
      get_path_components = components_acc []\<rparr>"

definition monokai_json :: string where
  "monokai_json = ''Packages/Color Scheme - Default/Monokai.sublime-color-scheme''"

definition monokai_user_json :: string where
  "monokai_user_json = ''Packages/User/Monokai.sublime-color-scheme''"

definition monokai_tmtheme :: string where
  "monokai_tmtheme = ''Packages/Color Scheme - Default/Monokai.tmTheme''"

definition ex_find :: "string \<Rightarrow> string list" where
  "ex_find pat =
     (if pat = ''Monokai.sublime-color-scheme'' then [monokai_json, monokai_user_json]
      else if pat = ''Monokai.tmTheme'' then [monokai_tmtheme]
      else [])"

definition comment_rule :: rule where
  "comment_rule = [''scope'' \<mapsto> ''comment'', ''foreground'' \<mapsto> ''#75715E'']"

definition stale_rule :: rule where
  "stale_rule = [''scope'' \<mapsto> ''sublimelinter.gutter.style_007'', ''foreground'' \<mapsto> ''#0000FF'']"

definition nameless_rule :: rule where
  "nameless_rule = [''name'' \<mapsto> ''Mine'', ''foreground'' \<mapsto> ''#FFFFFF'']"

definition user_rule :: rule where
  "user_rule = [''scope'' \<mapsto> ''string keyword'', ''foreground'' \<mapsto> ''#E6DB74'']"

definition ex_resources :: "string \<Rightarrow> unit resource option" where
  "ex_resources =
     [monokai_json \<mapsto> Parsed \<lparr>rules = Some [comment_rule], other_keys = Map.empty\<rparr>,
      monokai_tmtheme \<mapsto> Text monokai_xml_text]"

definition derived_json_path :: string where
  "derived_json_path = ''/st/Packages/User/Monokai.sublime-color-scheme''"

text \<open>A host with no derived file yet, and one with a derived file of an earlier pass.\<close>

definition fresh_host :: "unit host" where
  "fresh_host =
     \<lparr>load_resource = ex_resources, find_resources = ex_find, files = Map.empty,
      color_scheme = monokai_user_json, saved_settings = 0, printed = []\<rparr>"

definition used_host :: "unit host" where
  "used_host =
     fresh_host\<lparr>files := [derived_json_path \<mapsto>
        JsonFile \<lparr>rules = Some [user_rule, stale_rule, nameless_rule], other_keys = Map.empty\<rparr>]\<rparr>"

definition json_paths :: path_set where
  "json_paths =
     \<lparr>usr_dir = ''/st/Packages/User'', usr_dir_rel = ''User/SublimeLinter'',
      usr_dir_abs = ''/st/Packages/User/SublimeLinter'', scheme_orig = monokai_json,
      scheme_name = ''Monokai'', ext = ''.sublime-color-scheme''\<rparr>"

definition error_style :: "string \<Rightarrow> string option" where
  "error_style = [''foreground'' \<mapsto> ''#ff0000'']"

definition gutter_style :: "string \<Rightarrow> string option" where
  "gutter_style = [''foreground'' \<mapsto> ''#00ff00'']"

definition json_self :: "rule scheme_obj" where
  "json_self =
     assemble_node_json
       (assemble_node_json
          \<lparr>static_nodes = [], dynamic_nodes = [], scheme = monokai_user_json, paths = json_paths\<rparr>
          ''sublimelinter.mark.error'' error_style None)
       ''sublimelinter.gutter.style_001'' gutter_style None"

text \<open>The XML engine on a theme whose file name ends in \<open>.xml\<close>.\<close>

definition monokai_xml :: string where
  "monokai_xml = ''Packages/Color Scheme - Default/Monokai.xml''"

definition xml_paths :: path_set where
  "xml_paths =
     \<lparr>usr_dir = ''/st/Packages/User'', usr_dir_rel = ''User/SublimeLinter'',
      usr_dir_abs = ''/st/Packages/User/SublimeLinter'', scheme_orig = monokai_xml,
      scheme_name = ''Monokai'', ext = ''.xml''\<rparr>"

definition xml_host :: "unit host" where
  "xml_host =
     \<lparr>load_resource = [monokai_xml \<mapsto> Text monokai_xml_text], find_resources = (\<lambda>pat. []),
      files = Map.empty, color_scheme = monokai_xml, saved_settings = 0, printed = []\<rparr>"

definition xml_self :: "xml scheme_obj" where
  "xml_self =
     assemble_node_xml ex_env
       \<lparr>static_nodes = [], dynamic_nodes = [], scheme = monokai_xml, paths = xml_paths\<rparr>
       ''sublimelinter.gutter.style_001'' gutter_style None"

definition derived_xml_path :: string where
  "derived_xml_path = ''/st/Packages/User/SublimeLinter/Monokai (SL).hidden-tmTheme''"

definition monokai_theme :: "unit theme" where
  "monokai_theme = \<lparr>rules = Some [comment_rule], other_keys = Map.empty\<rparr>"

text \<open>The hosts that the passes below end in, written out.\<close>

definition gutter_node :: rule where
  "gutter_node = json_husk ''sublimelinter.gutter.style_001'' gutter_style None"

definition missing_notice :: string where
  "missing_notice =
     ''The following scopes have not been found in the color scheme:'' @ [CHR 0x0A]
     @ ''sublimelinter.mark.error''"

definition fresh_host_after :: "unit host" where
  "fresh_host_after =
     fresh_host\<lparr>
       files := [derived_json_path \<mapsto>
         JsonFile \<lparr>rules = Some [gutter_node], other_keys = Map.empty\<rparr>],
       color_scheme := monokai_json,
       saved_settings := 1,
       printed := [''New scheme path detected. Updating.'']\<rparr>"

definition used_host_after :: "unit host" where
  "used_host_after =
     fresh_host\<lparr>
       files := [derived_json_path \<mapsto>
         JsonFile \<lparr>rules = Some [user_rule, gutter_node], other_keys = Map.empty\<rparr>],
       color_scheme := monokai_json,
       saved_settings := 1,
       printed := [missing_notice, ''New scheme path detected. Updating.'']\<rparr>"

definition monokai_plist_after :: xml where
  "monokai_plist_after =
     Element ''plist'' [] None None
       [Element ''dict'' [] None None
          [Element ''key'' [] (Some ''settings'') None [],
           Element ''array'' [] None None
             [xml_root ex_env ''sublimelinter.gutter.style_001'' gutter_style None]]]"

definition xml_host_after :: "unit host" where
  "xml_host_after =
     xml_host\<lparr>
       files := [derived_xml_path \<mapsto>
         TextFile (COLOR_SCHEME_PREAMBLE @ render monokai_plist_after)],
       color_scheme := ''Packages/User/SublimeLinter/Monokai (SL).hidden-tmTheme'',
       saved_settings := 1,
       printed := [''New scheme path detected. Updating.'']\<rparr>"

text \<open>A scheme object with nothing to include, and one with an extension of neither kind.\<close>

definition idle_self :: "rule scheme_obj" where
  "idle_self =
     assemble_node_json
       \<lparr>static_nodes = [], dynamic_nodes = [], scheme = monokai_user_json, paths = json_paths\<rparr>
       ''comment'' error_style None"

definition odd_self :: "rule scheme_obj" where
  "odd_self = json_self\<lparr>paths := json_paths\<lparr>ext := ''.xml''\<rparr>\<rparr>"

text \<open>
  The JSON engine on the tmTheme of the same theme: the scheme object, a host where the
  preference names the tmTheme, with and without a derived file, and the host after a
  first pass. The text of the tmTheme has no \<open><string>\<close> element for the static scope,
  so the search for \<open>MARK_COLOR_RE\<close> finds nothing there, as the search of \<open>ex_env\<close> does.
\<close>

definition tm_paths :: path_set where
  "tm_paths =
     \<lparr>usr_dir = ''/st/Packages/User'', usr_dir_rel = ''User/SublimeLinter'',
      usr_dir_abs = ''/st/Packages/User/SublimeLinter'', scheme_orig = monokai_tmtheme,
      scheme_name = ''Monokai'', ext = ''.tmTheme''\<rparr>"

definition tm_self :: "rule scheme_obj" where
  "tm_self =
     assemble_node_json
       (assemble_node_json
          \<lparr>static_nodes = [], dynamic_nodes = [], scheme = monokai_tmtheme, paths = tm_paths\<rparr>
          ''sublimelinter.mark.error'' error_style None)
       ''sublimelinter.gutter.style_001'' gutter_style None"

definition tm_fresh_host :: "unit host" where
  "tm_fresh_host = fresh_host\<lparr>color_scheme := monokai_tmtheme\<rparr>"

definition tm_used_host :: "unit host" where
  "tm_used_host = used_host\<lparr>color_scheme := monokai_tmtheme\<rparr>"

definition tm_host_after :: "unit host" where
  "tm_host_after =
     tm_fresh_host\<lparr>
       files := [derived_json_path \<mapsto>
         JsonFile \<lparr>rules = Some [gutter_node], other_keys = Map.empty\<rparr>],
       printed := [''Old scheme path detected. Pass.'']\<rparr>"

section \<open>Facts about the differ, the dynamic pattern and the passes\<close>

lemma unfound_loop_None:
  "unfound_loop U D = None \<Longrightarrow> U - scopes_declared_in D = {}"
proof (induction D arbitrary: U)
  case Nil
  then show ?case by simp
next
  case (Cons node D)
  show ?case
  proof (cases "U - set (def_scopes node) = {}")
    case True
    then show ?thesis by (auto simp: scopes_declared_in_def)
  next
    case False
    with Cons.prems have "unfound_loop (U - set (def_scopes node)) D = None"
      by (simp add: Let_def)
    from Cons.IH [OF this] show ?thesis
      by (auto simp: scopes_declared_in_def)
  qed
qed

lemma unfound_loop_Some:
  "unfound_loop U D = Some V \<Longrightarrow> V = U - scopes_declared_in D"
proof (induction D arbitrary: U)
  case Nil
  then show ?case by (simp add: scopes_declared_in_def)
next
  case (Cons node D)
  from Cons.prems have "unfound_loop (U - set (def_scopes node)) D = Some V"
    by (simp add: Let_def split: if_splits)
  from Cons.IH [OF this] show ?case
    by (auto simp: scopes_declared_in_def)
qed

lemma parse_scheme_json_dict:
  "parse_scheme_json (NDict R) D = Inr (filter (\<lambda>(k, v). k \<notin> scopes_declared_in D) R)"
proof (cases "unfound_loop (set (dict_keys R)) D")
  case None
  from unfound_loop_None [OF this]
  have "\<forall>p \<in> set R. fst p \<in> scopes_declared_in D"
    by (auto simp: dict_keys_def)
  then have "filter (\<lambda>(k, v). k \<notin> scopes_declared_in D) R = []"
    by (auto simp: filter_empty_conv)
  with None show ?thesis by (simp add: parse_scheme_json_def)
next
  case (Some V)
  from unfound_loop_Some [OF this]
  have V: "V = set (dict_keys R) - scopes_declared_in D" .
  have "filter (\<lambda>(k, v). k \<in> V) R = filter (\<lambda>(k, v). k \<notin> scopes_declared_in D) R"
    by (rule filter_cong) (force simp: V dict_keys_def)+
  with Some show ?thesis by (simp add: parse_scheme_json_def)
qed

lemma pmatch_lit:
  "pmatch (lit l @ p) s \<longleftrightarrow> (\<exists>rest. s = l @ rest \<and> pmatch p rest)"
proof (induction l arbitrary: s)
  case Nil
  then show ?case by (simp add: lit_def)
next
  case (Cons a l)
  then show ?case by (cases s) (auto simp: lit_def)
qed

lemma pmatch_star:
  "pmatch (AtLeast 0 a # p) s \<longleftrightarrow>
     (\<exists>w rest. s = w @ rest \<and> list_all (accepts a) w \<and> pmatch p rest)"
proof (induction s)
  case Nil
  then show ?case by simp
next
  case (Cons c s)
  show ?case
  proof
    assume "pmatch (AtLeast 0 a # p) (c # s)"
    then consider "pmatch p (c # s)" | "accepts a c" "pmatch (AtLeast 0 a # p) s"
      by auto
    then show "\<exists>w rest. c # s = w @ rest \<and> list_all (accepts a) w \<and> pmatch p rest"
    proof cases
      case 1
      then have "c # s = [] @ (c # s) \<and> list_all (accepts a) [] \<and> pmatch p (c # s)" by simp
      then show ?thesis by blast
    next
      case 2
      with Cons.IH obtain w rest where "s = w @ rest" "list_all (accepts a) w" "pmatch p rest"
        by blast
      with 2 have "c # s = (c # w) @ rest \<and> list_all (accepts a) (c # w) \<and> pmatch p rest"
        by simp
      then show ?thesis by blast
    qed
  next
    assume "\<exists>w rest. c # s = w @ rest \<and> list_all (accepts a) w \<and> pmatch p rest"
    then obtain w rest where w: "c # s = w @ rest" "list_all (accepts a) w" "pmatch p rest"
      by blast
    show "pmatch (AtLeast 0 a # p) (c # s)"
    proof (cases w)
      case Nil
      with w show ?thesis by auto
    next
      case (Cons d w')
      with w have "s = w' @ rest" "list_all (accepts a) w'" "accepts a c" by auto
      with w(3) Cons.IH have "pmatch (AtLeast 0 a # p) s" by blast
      with \<open>accepts a c\<close> show ?thesis by simp
    qed
  qed
qed

lemma pmatch_at_least:
  "pmatch (AtLeast n a # p) s \<longleftrightarrow>
     (\<exists>w rest. s = w @ rest \<and> n \<le> length w \<and> list_all (accepts a) w \<and> pmatch p rest)"
proof (induction n arbitrary: s)
  case 0
  then show ?case by (simp add: pmatch_star)
next
  case (Suc n)
  show ?case
  proof (cases s)
    case Nil
    then show ?thesis by simp
  next
    case (Cons c s')
    show ?thesis
    proof
      assume "pmatch (AtLeast (Suc n) a # p) s"
      with Cons have c: "accepts a c" and "pmatch (AtLeast n a # p) s'" by simp_all
      with Suc.IH obtain w rest where
        "s' = w @ rest" "n \<le> length w" "list_all (accepts a) w" "pmatch p rest" by blast
      with c Cons have "s = (c # w) @ rest \<and> Suc n \<le> length (c # w)
          \<and> list_all (accepts a) (c # w) \<and> pmatch p rest" by simp
      then show "\<exists>w rest. s = w @ rest \<and> Suc n \<le> length w \<and> list_all (accepts a) w \<and> pmatch p rest"
        by blast
    next
      assume "\<exists>w rest. s = w @ rest \<and> Suc n \<le> length w \<and> list_all (accepts a) w \<and> pmatch p rest"
      then obtain w rest where
        w: "s = w @ rest" "Suc n \<le> length w" "list_all (accepts a) w" "pmatch p rest" by blast
      then obtain d w' where w': "w = d # w'" by (cases w) auto
      with w Cons have "s' = w' @ rest" "n \<le> length w'" "list_all (accepts a) w'" "accepts a c"
        by auto
      with w(4) Suc.IH have "pmatch (AtLeast n a # p) s'" by blast
      with \<open>accepts a c\<close> Cons show "pmatch (AtLeast (Suc n) a # p) s" by simp
    qed
  qed
qed

lemma re_search_iff:
  "re_search p s \<longleftrightarrow> (\<exists>pre post. s = pre @ post \<and> pmatch p post)"
proof (induction s)
  case Nil
  then show ?case by simp
next
  case (Cons c s)
  show ?case
  proof
    assume "re_search p (c # s)"
    then consider "pmatch p (c # s)" | "re_search p s" by auto
    then show "\<exists>pre post. c # s = pre @ post \<and> pmatch p post"
    proof cases
      case 1
      then have "c # s = [] @ (c # s) \<and> pmatch p (c # s)" by simp
      then show ?thesis by blast
    next
      case 2
      with Cons.IH obtain pre post where "s = pre @ post" "pmatch p post" by blast
      then have "c # s = (c # pre) @ post \<and> pmatch p post" by simp
      then show ?thesis by blast
    qed
  next
    assume "\<exists>pre post. c # s = pre @ post \<and> pmatch p post"
    then obtain pre post where pp: "c # s = pre @ post" "pmatch p post" by blast
    show "re_search p (c # s)"
    proof (cases pre)
      case Nil
      with pp show ?thesis by auto
    next
      case (Cons d pre')
      with pp have "s = pre' @ post" by simp
      with pp(2) Cons.IH have "re_search p s" by blast
      then show ?thesis by simp
    qed
  qed
qed

lemma pmatch_AtLeast_Nil: "pmatch (AtLeast n a # p) [] = (n = 0 \<and> pmatch p [])"
  by (cases n) simp_all

lemma pmatch_AtLeast_Cons:
  "pmatch (AtLeast n a # p) (c # s) =
     ((n = 0 \<and> pmatch p (c # s)) \<or> (accepts a c \<and> pmatch (AtLeast (n - 1) a # p) s))"
  by (cases n) auto

lemma re_match_DYN_PAT: "re_match DYN_PAT s \<longleftrightarrow> starts_with_dyn_pattern s"
proof -
  have "re_match DYN_PAT s \<longleftrightarrow>
      (\<exists>r1. s = ''sublimelinter.'' @ r1 \<and>
         (\<exists>w r2. r1 = w @ r2 \<and> 1 \<le> length w \<and> list_all (accepts Word) w \<and>
            (\<exists>r3. r2 = ''.style_'' @ r3 \<and>
               (\<exists>n rest. r3 = n @ rest \<and> 3 \<le> length n \<and> list_all (accepts Digit) n))))"
    unfolding re_match_def DYN_PAT_def
    by (simp only: pmatch_lit append_Cons append_Nil pmatch_at_least pmatch.simps(1) simp_thms)
  also have "\<dots> \<longleftrightarrow> starts_with_dyn_pattern s"
  proof
    assume "\<exists>r1. s = ''sublimelinter.'' @ r1 \<and>
         (\<exists>w r2. r1 = w @ r2 \<and> 1 \<le> length w \<and> list_all (accepts Word) w \<and>
            (\<exists>r3. r2 = ''.style_'' @ r3 \<and>
               (\<exists>n rest. r3 = n @ rest \<and> 3 \<le> length n \<and> list_all (accepts Digit) n)))"
    then obtain w n rest where
      "s = ''sublimelinter.'' @ w @ ''.style_'' @ n @ rest" "1 \<le> length w"
      "list_all (accepts Word) w" "3 \<le> length n" "list_all (accepts Digit) n"
      by auto
    then have "s = ''sublimelinter.'' @ w @ ''.style_'' @ n @ rest
        \<and> w \<noteq> [] \<and> list_all is_word w \<and> 3 \<le> length n \<and> list_all is_digit n"
      by (auto simp: list_all_iff)
    then show "starts_with_dyn_pattern s"
      unfolding starts_with_dyn_pattern_def by blast
  next
    assume "starts_with_dyn_pattern s"
    then obtain w n rest where *:
      "s = ''sublimelinter.'' @ w @ ''.style_'' @ n @ rest" "w \<noteq> []"
      "list_all is_word w" "3 \<le> length n" "list_all is_digit n"
      unfolding starts_with_dyn_pattern_def by blast
    have n: "\<exists>n' rest'. n @ rest = n' @ rest' \<and> 3 \<le> length n' \<and> list_all (accepts Digit) n'"
      using *(4,5) by (intro exI [of _ n] exI [of _ rest]) (simp add: list_all_iff)
    have r2: "\<exists>r3. ''.style_'' @ n @ rest = ''.style_'' @ r3 \<and>
        (\<exists>n' rest'. r3 = n' @ rest' \<and> 3 \<le> length n' \<and> list_all (accepts Digit) n')"
      using n by (intro exI [of _ "n @ rest"]) simp
    have w: "\<exists>w' r2. w @ ''.style_'' @ n @ rest = w' @ r2 \<and> 1 \<le> length w'
        \<and> list_all (accepts Word) w' \<and>
        (\<exists>r3. r2 = ''.style_'' @ r3 \<and>
           (\<exists>n' rest'. r3 = n' @ rest' \<and> 3 \<le> length n' \<and> list_all (accepts Digit) n'))"
      using r2 *(2,3)
      by (intro exI [of _ w] exI [of _ "''.style_'' @ n @ rest"])
         (simp add: list_all_iff Suc_le_eq)
    show "\<exists>r1. s = ''sublimelinter.'' @ r1 \<and>
         (\<exists>w r2. r1 = w @ r2 \<and> 1 \<le> length w \<and> list_all (accepts Word) w \<and>
            (\<exists>r3. r2 = ''.style_'' @ r3 \<and>
               (\<exists>n rest. r3 = n @ rest \<and> 3 \<le> length n \<and> list_all (accepts Digit) n)))"
      using w *(1) by (intro exI [of _ "w @ ''.style_'' @ n @ rest"]) simp
  qed
  finally show ?thesis .
qed

lemma re_search_DYN_PAT: "re_search DYN_PAT s \<longleftrightarrow> contains_dyn_pattern s"
  by (simp add: re_search_iff contains_dyn_pattern_def re_match_DYN_PAT [unfolded re_match_def])

lemma map_of_dict_set: "map_of (dict_set k v d) = (map_of d)(k \<mapsto> v)"
  by (induction d) (auto simp: fun_eq_iff)

lemma remove_dyn_rules_filter: "remove_dyn_rules rs = filter is_kept_rule rs"
  by (induction rs) (auto simp: is_kept_rule_def re_search_DYN_PAT split: option.splits)

lemmas run_simps = DYN_PAT_def lit_def is_word_def is_digit_def re_match_def
  pmatch_AtLeast_Nil pmatch_AtLeast_Cons is_space_def str_split_def def_scopes_def

lemma dialogue_printed:
  "unfound_scopes_dialogue ks h = h\<lparr>printed := printed h @ [''The following scopes have not been found in the color scheme:'' @ [CHR 0x0A] @ str_join [CHR 0x0A] ks]\<rparr>"
  by (simp add: unfound_scopes_dialogue_def)

lemma merge_old_rules_Inr:
  assumes "merge_old_rules u old h = Inr (kept, h1)"
  shows "kept = remove_dyn_rules old \<and> (\<exists>msgs. h1 = h\<lparr>printed := printed h @ msgs\<rparr>)"
proof -
  have same: "\<exists>msgs. h = h\<lparr>printed := printed h @ msgs\<rparr>"
    by (rule exI [of _ "[]"]) simp
  have dia: "\<exists>msgs. unfound_scopes_dialogue ks h = h\<lparr>printed := printed h @ msgs\<rparr>" for ks
    unfolding dialogue_printed by blast
  from assms show ?thesis
    unfolding merge_old_rules_def
    using same dia
    by (auto split: if_splits sum.splits)
qed

lemma load_theme_Inr:
  assumes "load_theme u f h = Inr (theme, kept, h1)"
  shows "(\<exists>msgs. h1 = h\<lparr>printed := printed h @ msgs\<rparr>)
     \<and> ((f = None \<and> theme = \<lparr>rules = Some [], other_keys = Map.empty\<rparr> \<and> kept = [])
        \<or> (\<exists>old. f = Some (JsonFile theme) \<and> rules theme = Some old
              \<and> kept = remove_dyn_rules old))"
proof (cases f)
  case None
  with assms have "h1 = h" "theme = \<lparr>rules = Some [], other_keys = Map.empty\<rparr>" "kept = []"
    by (simp_all add: load_theme_def)
  moreover have "\<exists>msgs. h = h\<lparr>printed := printed h @ msgs\<rparr>"
    by (rule exI [of _ "[]"]) simp
  ultimately show ?thesis using None by simp
next
  case (Some df)
  with assms obtain t old where df: "df = JsonFile t" and old: "rules t = Some old"
    and m: "merge_old_rules u old h = Inr (kept, h1)" and t: "theme = t"
    by (auto simp: load_theme_def split: disk_file.splits option.splits sum.splits)
  from merge_old_rules_Inr [OF m] Some df old t show ?thesis by simp
qed

lemma json_pass_skip:
  "nothing_to_include e self h \<Longrightarrow> generate_color_scheme_async_json e self h = Inr h"
  by (auto simp: nothing_to_include_def generate_color_scheme_async_json_def
           split: option.splits sum.splits)

lemma json_pass_written:
  assumes "generate_color_scheme_async_json e self h = Inr h'"
    and "\<not> nothing_to_include e self h"
  shows "\<exists>theme kept msgs.
      ((files h (new_scheme_path self) = None
          \<and> theme = \<lparr>rules = Some [], other_keys = Map.empty\<rparr> \<and> kept = [])
       \<or> (\<exists>old. files h (new_scheme_path self) = Some (JsonFile theme)
             \<and> rules theme = Some old \<and> kept = remove_dyn_rules old))
      \<and> h' = set_scheme_path self (scheme_orig (paths self))
            (h\<lparr>printed := printed h @ msgs,
               files := (files h)(new_scheme_path self \<mapsto>
                 JsonFile (theme\<lparr>rules := Some (kept @ dict_values (dynamic_nodes self))\<rparr>))\<rparr>)"
proof -
  from assms obtain unfound theme kept h1 where
    lt: "load_theme unfound (files h (new_scheme_path self)) h = Inr (theme, kept, h1)"
    and h': "h' = set_scheme_path self (scheme_orig (paths self))
            (h1\<lparr>files := (files h1)(new_scheme_path self \<mapsto>
                 JsonFile (theme\<lparr>rules := Some (kept @ dict_values (dynamic_nodes self))\<rparr>))\<rparr>)"
    by (auto simp: nothing_to_include_def generate_color_scheme_async_json_def Let_def
             split: option.splits sum.splits if_splits)
  from load_theme_Inr [OF lt] obtain msgs where
    h1: "h1 = h\<lparr>printed := printed h @ msgs\<rparr>"
    and c: "(files h (new_scheme_path self) = None
          \<and> theme = \<lparr>rules = Some [], other_keys = Map.empty\<rparr> \<and> kept = [])
       \<or> (\<exists>old. files h (new_scheme_path self) = Some (JsonFile theme)
             \<and> rules theme = Some old \<and> kept = remove_dyn_rules old)"
    by blast
  from h' h1 c show ?thesis by auto
qed

lemma set_scheme_path_files [simp]: "files (set_scheme_path self p h) = files h"
  by (simp add: set_scheme_path_def)

lemma set_scheme_path_resources [simp]:
  "load_resource (set_scheme_path self p h) = load_resource h"
  "find_resources (set_scheme_path self p h) = find_resources h"
  by (simp_all add: set_scheme_path_def)

lemma xml_pass_written:
  assumes "generate_color_scheme_async_xml e self h = Inr h'"
  shows "\<exists>src plist plist' msgs.
      load_resource h (scheme_orig (paths self)) = Some (Text src)
      \<and> xml_parse e src = Some plist
      \<and> extend_styles (dict_values (dynamic_nodes self)) plist = Some plist'
      \<and> h' = set_scheme_path self
            (packages_relative_path e
               (path_join (usr_dir_rel (paths self)) (basename (mod_scheme_path self))))
            (h\<lparr>printed := printed h @ msgs,
               files := (files h)(mod_scheme_path self \<mapsto>
                 TextFile (COLOR_SCHEME_PREAMBLE @ xml_tostring e plist'))\<rparr>)"
proof -
  from assms obtain src plist plist' where
    r: "load_resource h (scheme_orig (paths self)) = Some (Text src)"
    and p: "xml_parse e src = Some plist"
    and x: "extend_styles (dict_values (dynamic_nodes self)) plist = Some plist'"
    by (auto simp: generate_color_scheme_async_xml_def split: option.splits resource.splits)
  let ?u = "parse_scheme_xml e (dict_keys (static_nodes self)) src"
  let ?h1 = "if ?u \<noteq> [] then unfound_scopes_dialogue ?u h else h"
  have "\<exists>msgs. ?h1 = h\<lparr>printed := printed h @ msgs\<rparr>"
  proof (cases "?u = []")
    case True
    then have "?h1 = h\<lparr>printed := printed h @ []\<rparr>" by simp
    then show ?thesis by blast
  next
    case False
    then show ?thesis unfolding dialogue_printed by auto
  qed
  then obtain msgs where h1: "?h1 = h\<lparr>printed := printed h @ msgs\<rparr>" by blast
  from assms r p x have "h' = set_scheme_path self
            (packages_relative_path e
               (path_join (usr_dir_rel (paths self)) (basename (mod_scheme_path self))))
            (?h1\<lparr>files := (files ?h1)(mod_scheme_path self \<mapsto>
                 TextFile (COLOR_SCHEME_PREAMBLE @ xml_tostring e plist'))\<rparr>)"
    by (simp add: generate_color_scheme_async_xml_def Let_def)
  with h1 have "h' = set_scheme_path self
            (packages_relative_path e
               (path_join (usr_dir_rel (paths self)) (basename (mod_scheme_path self))))
            (h\<lparr>printed := printed h @ msgs,
               files := (files h)(mod_scheme_path self \<mapsto>
                 TextFile (COLOR_SCHEME_PREAMBLE @ xml_tostring e plist'))\<rparr>)"
    by simp
  with r p x show ?thesis by blast
qed

lemma sub_markers_Nil: "sub_markers [] = []"
  by (subst sub_markers.simps) simp

lemma sub_markers_Cons:
  "sub_markers (c # cs) =
     (if marker_len (c # cs) = 0 then c # sub_markers cs
      else sub_markers (drop (marker_len (c # cs)) (c # cs)))"
  by (subst sub_markers.simps) simp

lemmas path_simps = path_join_def basename_def suffix_to_prefix new_scheme_path_def
  mod_scheme_path_def marker_len_def sub_markers_Nil sub_markers_Cons

lemma json_self_fields:
  "static_nodes json_self = [(''sublimelinter.mark.error'', json_husk ''sublimelinter.mark.error'' error_style None)]"
  "dynamic_nodes json_self = [(''sublimelinter.gutter.style_001'', json_husk ''sublimelinter.gutter.style_001'' gutter_style None)]"
  "scheme json_self = monokai_user_json"
  "paths json_self = json_paths"
  by (simp_all add: json_self_def assemble_node_json_def run_simps)

lemma xml_self_fields:
  "static_nodes xml_self = []"
  "dynamic_nodes xml_self = [(''sublimelinter.gutter.style_001'', xml_root ex_env ''sublimelinter.gutter.style_001'' gutter_style None)]"
  "scheme xml_self = monokai_xml"
  "paths xml_self = xml_paths"
  by (simp_all add: xml_self_def assemble_node_xml_def run_simps)

lemma json_paths_eval:
  "new_scheme_path json_self = derived_json_path"
  by (simp add: json_self_fields json_paths_def derived_json_path_def path_simps)

lemma xml_paths_eval:
  "mod_scheme_path xml_self = derived_xml_path"
  by (simp add: xml_self_fields xml_paths_def derived_xml_path_def path_simps)

lemma original_eval:
  "get_original_theme fresh_host monokai_user_json = monokai_json"
  "get_original_theme used_host monokai_user_json = monokai_json"
  by (simp_all add: get_original_theme_def fresh_host_def used_host_def monokai_user_json_def
        monokai_json_def ex_find_def path_simps Let_def del: sub_markers.simps)

lemma husk_scope [simp]: "json_husk scope i n ''scope'' = Some scope"
  by (simp add: json_husk_def used_keys_def map_add_def restrict_map_def)

lemma resource_eval:
  "load_resource fresh_host monokai_json = Some (Parsed monokai_theme)"
  "load_resource used_host monokai_json = Some (Parsed monokai_theme)"
  by (simp_all add: fresh_host_def used_host_def ex_resources_def monokai_json_def
        monokai_tmtheme_def monokai_theme_def)

lemma unfound_eval:
  "first_unfound ex_env json_self (Parsed monokai_theme)
     = Inr (NDict [(''sublimelinter.mark.error'',
                    json_husk ''sublimelinter.mark.error'' error_style None)])"
  by (simp add: first_unfound_def json_self_fields json_paths_def monokai_theme_def
        parse_scheme_json_def dict_keys_def comment_rule_def run_simps)

lemma files_eval:
  "files fresh_host derived_json_path = None"
  "files used_host derived_json_path
     = Some (JsonFile \<lparr>rules = Some [user_rule, stale_rule, nameless_rule],
                       other_keys = Map.empty\<rparr>)"
  by (simp_all add: fresh_host_def used_host_def)

lemma json_fresh_run:
  "generate_color_scheme_async_json ex_env json_self fresh_host = Inr fresh_host_after"
proof -
  have "generate_color_scheme_async_json ex_env json_self fresh_host
      = Inr (set_scheme_path json_self monokai_json
          (fresh_host\<lparr>files := (files fresh_host)(derived_json_path \<mapsto>
             JsonFile \<lparr>rules = Some [gutter_node], other_keys = Map.empty\<rparr>)\<rparr>))"
    by (simp add: generate_color_scheme_async_json_def original_eval resource_eval
          unfound_eval files_eval json_self_fields json_paths_eval load_theme_def
          dict_keys_def dict_values_def gutter_node_def json_paths_def)
  also have "\<dots> = Inr fresh_host_after"
    by (simp add: set_scheme_path_def json_self_fields fresh_host_after_def fresh_host_def
          monokai_json_def monokai_user_json_def)
  finally show ?thesis .
qed

lemma kept_eval:
  "remove_dyn_rules [user_rule, stale_rule, nameless_rule] = [user_rule]"
  by (simp add: user_rule_def stale_rule_def nameless_rule_def run_simps)

lemma json_used_run:
  "generate_color_scheme_async_json ex_env json_self used_host = Inr used_host_after"
proof -
  have m: "merge_old_rules
       (NDict [(''sublimelinter.mark.error'',
                json_husk ''sublimelinter.mark.error'' error_style None)])
       [user_rule, stale_rule, nameless_rule] used_host
     = Inr ([user_rule], used_host\<lparr>printed := [missing_notice]\<rparr>)"
    by (simp add: merge_old_rules_def kept_eval dict_keys_def parse_scheme_json_def
          unfound_scopes_dialogue_def missing_notice_def used_host_def fresh_host_def
          user_rule_def stale_rule_def nameless_rule_def run_simps)
  have "generate_color_scheme_async_json ex_env json_self used_host
      = Inr (set_scheme_path json_self monokai_json
          (used_host\<lparr>printed := [missing_notice],
             files := (files used_host)(derived_json_path \<mapsto>
             JsonFile \<lparr>rules = Some [user_rule, gutter_node], other_keys = Map.empty\<rparr>)\<rparr>))"
    by (simp add: generate_color_scheme_async_json_def original_eval resource_eval
          unfound_eval files_eval json_self_fields json_paths_eval load_theme_def m
          dict_keys_def dict_values_def gutter_node_def json_paths_def)
  also have "\<dots> = Inr used_host_after"
    by (simp add: set_scheme_path_def json_self_fields used_host_after_def used_host_def
          fresh_host_def monokai_json_def monokai_user_json_def)
  finally show ?thesis .
qed

lemma xml_run:
  "generate_color_scheme_async_xml ex_env xml_self xml_host = Inr xml_host_after"
proof -
  have r: "load_resource xml_host (scheme_orig (paths xml_self)) = Some (Text monokai_xml_text)"
    by (simp add: xml_host_def xml_self_fields xml_paths_def)
  have p: "xml_parse ex_env monokai_xml_text = Some monokai_plist"
    by (simp add: ex_env_def)
  have x: "extend_styles (dict_values (dynamic_nodes xml_self)) monokai_plist
      = Some monokai_plist_after"
    by (simp add: extend_styles_def xml_self_fields dict_values_def monokai_plist_def
          monokai_plist_after_def)
  have u: "parse_scheme_xml ex_env (dict_keys (static_nodes xml_self)) monokai_xml_text = []"
    by (simp add: parse_scheme_xml_def xml_self_fields dict_keys_def)
  have rel: "packages_relative_path ex_env
       (path_join (usr_dir_rel (paths xml_self)) (basename (mod_scheme_path xml_self)))
     = ''Packages/User/SublimeLinter/Monokai (SL).hidden-tmTheme''"
    by (simp add: packages_relative_path_def ex_env_def xml_paths_eval derived_xml_path_def
          xml_self_fields xml_paths_def path_join_def basename_def suffix_to_prefix)
  have "generate_color_scheme_async_xml ex_env xml_self xml_host
      = Inr (set_scheme_path xml_self ''Packages/User/SublimeLinter/Monokai (SL).hidden-tmTheme''
          (xml_host\<lparr>files := (files xml_host)(derived_xml_path \<mapsto>
             TextFile (COLOR_SCHEME_PREAMBLE @ xml_tostring ex_env monokai_plist_after))\<rparr>))"
    by (simp add: generate_color_scheme_async_xml_def r p x u rel [unfolded xml_paths_eval]
          xml_paths_eval)
  also have "\<dots> = Inr xml_host_after"
    by (simp add: set_scheme_path_def xml_self_fields xml_host_after_def xml_host_def
          monokai_xml_def ex_env_def)
  finally show ?thesis .
qed

lemma idle_eval: "nothing_to_include ex_env idle_self used_host"
proof -
  have f: "static_nodes idle_self = [(''comment'', json_husk ''comment'' error_style None)]"
    "dynamic_nodes idle_self = []" "scheme idle_self = monokai_user_json"
    "paths idle_self = json_paths"
    by (simp_all add: idle_self_def assemble_node_json_def run_simps)
  have u: "first_unfound ex_env idle_self (Parsed monokai_theme) = Inr (NDict [])"
    by (simp add: first_unfound_def f json_paths_def monokai_theme_def
          parse_scheme_json_def dict_keys_def comment_rule_def run_simps)
  show ?thesis
    by (simp add: nothing_to_include_def f original_eval resource_eval u dict_keys_def)
qed

lemma odd_eval:
  "ext (paths odd_self) = ''.xml''"
  "scheme odd_self = monokai_user_json"
  by (simp_all add: odd_self_def json_self_fields)

lemma kept_not_dynamic: "r \<in> set (remove_dyn_rules rs) \<Longrightarrow> \<not> is_dynamic_rule r"
  by (auto simp: remove_dyn_rules_filter is_kept_rule_def is_dynamic_rule_def)

lemma starts_contains: "starts_with_dyn_pattern s \<Longrightarrow> contains_dyn_pattern s"
  unfolding contains_dyn_pattern_def by (rule exI [of _ "[]"]) simp

lemma registry_values_dynamic:
  "dyn_registry_ok d \<Longrightarrow> r \<in> set (dict_values d) \<Longrightarrow> is_dynamic_rule r"
  by (auto simp: dyn_registry_ok_def dict_values_def list_all_iff is_dynamic_rule_def
        re_match_DYN_PAT starts_contains)

lemma registry_values_filter:
  "dyn_registry_ok d \<Longrightarrow> filter is_dynamic_rule (dict_values d) = dict_values d"
  by (auto simp: filter_id_conv dest: registry_values_dynamic)

lemma dict_set_registry_ok:
  "dyn_registry_ok d \<Longrightarrow> v ''scope'' = Some k \<Longrightarrow> re_match DYN_PAT k
     \<Longrightarrow> dyn_registry_ok (dict_set k v d)"
  by (induction d) (auto simp: dyn_registry_ok_def)

lemma assemble_node_json_registry_ok:
  "dyn_registry_ok (dynamic_nodes self)
     \<Longrightarrow> dyn_registry_ok (dynamic_nodes (assemble_node_json self scope i n))"
  by (simp add: assemble_node_json_def Let_def dict_set_registry_ok)

lemma json_self_registry_ok: "dyn_registry_ok (dynamic_nodes json_self)"
  unfolding json_self_def
  by (intro assemble_node_json_registry_ok) (simp add: dyn_registry_ok_def)

lemma set_scheme_path_color:
  "color_scheme h = scheme self \<Longrightarrow> color_scheme (set_scheme_path self p h) = p"
  by (simp add: set_scheme_path_def)

lemma basename_append_slash:
  assumes "CHR ''/'' \<notin> set b"
  shows "basename (a @ CHR ''/'' # b) = b"
proof -
  from assms have "takeWhile (\<lambda>c. c \<noteq> CHR ''/'') (rev b @ CHR ''/'' # rev a) = rev b"
    by (subst takeWhile_append2) auto
  then show ?thesis by (simp add: basename_def)
qed

lemma basename_no_slash:
  assumes "CHR ''/'' \<notin> set b"
  shows "basename b = b"
proof -
  from assms have "takeWhile (\<lambda>c. c \<noteq> CHR ''/'') (rev b) = rev b"
    by (subst takeWhile_eq_all_conv) auto
  then show ?thesis unfolding basename_def by (simp only: rev_rev_ident)
qed

lemma basename_path_join:
  assumes "CHR ''/'' \<notin> set b"
  shows "basename (path_join a b) = b"
proof -
  from assms have nb: "\<not> prefix ''/'' b"
    by (cases b) auto
  show ?thesis
  proof (cases "a = []")
    case True
    with nb assms show ?thesis by (simp add: path_join_def basename_no_slash)
  next
    case False
    show ?thesis
    proof (cases "suffix ''/'' a")
      case True
      then obtain a' where "a = a' @ ''/''" by (auto simp: suffix_def)
      with nb assms show ?thesis
        by (simp add: path_join_def basename_append_slash)
    next
      case False
      with nb \<open>a \<noteq> []\<close> assms show ?thesis
        by (simp add: path_join_def basename_append_slash)
    qed
  qed
qed

lemma tm_self_fields:
  "static_nodes tm_self = [(''sublimelinter.mark.error'', json_husk ''sublimelinter.mark.error'' error_style None)]"
  "dynamic_nodes tm_self = [(''sublimelinter.gutter.style_001'', gutter_node)]"
  "scheme tm_self = monokai_tmtheme"
  "paths tm_self = tm_paths"
  by (simp_all add: tm_self_def assemble_node_json_def gutter_node_def run_simps)

lemma tm_original_eval:
  "get_original_theme tm_fresh_host monokai_tmtheme = monokai_tmtheme"
  "get_original_theme tm_used_host monokai_tmtheme = monokai_tmtheme"
  "get_original_theme tm_host_after monokai_tmtheme = monokai_tmtheme"
  by (simp_all add: get_original_theme_def tm_fresh_host_def tm_used_host_def tm_host_after_def
        fresh_host_def used_host_def monokai_tmtheme_def ex_find_def path_simps Let_def)

lemma tm_resource_eval:
  "load_resource tm_fresh_host monokai_tmtheme = Some (Text monokai_xml_text)"
  "load_resource tm_used_host monokai_tmtheme = Some (Text monokai_xml_text)"
  "load_resource tm_host_after monokai_tmtheme = Some (Text monokai_xml_text)"
  by (simp_all add: tm_fresh_host_def tm_used_host_def tm_host_after_def fresh_host_def
        used_host_def ex_resources_def monokai_json_def monokai_tmtheme_def)

lemma tm_unfound_eval:
  "first_unfound ex_env tm_self (Text monokai_xml_text)
     = Inr (NList [''sublimelinter.mark.error''])"
  by (simp add: first_unfound_def tm_self_fields tm_paths_def suffix_to_prefix
        parse_scheme_xml_def dict_keys_def ex_env_def monokai_xml_text_def)

lemma tm_new_scheme_path: "new_scheme_path tm_self = derived_json_path"
  by (simp add: tm_self_fields tm_paths_def derived_json_path_def path_simps)

lemma tm_second_differ:
  "parse_scheme_json (NList [''sublimelinter.mark.error'']) [gutter_node] = Inl AttributeError"
  "parse_scheme_json (NList [''sublimelinter.mark.error''])
     [user_rule, stale_rule, nameless_rule] = Inl AttributeError"
  by (simp_all add: parse_scheme_json_def gutter_node_def user_rule_def stale_rule_def
        nameless_rule_def run_simps)

lemma tm_first_run:
  "generate_color_scheme_async_json ex_env tm_self tm_fresh_host = Inr tm_host_after"
proof -
  have f: "files tm_fresh_host derived_json_path = None"
    by (simp add: tm_fresh_host_def fresh_host_def)
  have "generate_color_scheme_async_json ex_env tm_self tm_fresh_host
      = Inr (set_scheme_path tm_self monokai_tmtheme
          (tm_fresh_host\<lparr>files := (files tm_fresh_host)(derived_json_path \<mapsto>
             JsonFile \<lparr>rules = Some [gutter_node], other_keys = Map.empty\<rparr>)\<rparr>))"
    by (simp add: generate_color_scheme_async_json_def tm_original_eval tm_resource_eval
          tm_unfound_eval f tm_self_fields tm_new_scheme_path load_theme_def
          dict_values_def tm_paths_def)
  also have "\<dots> = Inr tm_host_after"
    by (simp add: set_scheme_path_def tm_self_fields tm_host_after_def tm_fresh_host_def
          fresh_host_def)
  finally show ?thesis .
qed

lemma tm_second_run:
  "generate_color_scheme_async_json ex_env tm_self tm_host_after = Inl AttributeError"
proof -
  have f: "files tm_host_after derived_json_path
      = Some (JsonFile \<lparr>rules = Some [gutter_node], other_keys = Map.empty\<rparr>)"
    by (simp add: tm_host_after_def)
  show ?thesis
    by (simp add: generate_color_scheme_async_json_def tm_original_eval tm_resource_eval
          tm_unfound_eval f tm_self_fields tm_new_scheme_path load_theme_def
          merge_old_rules_def tm_second_differ)
qed

lemma tm_used_run:
  "generate_color_scheme_async_json ex_env tm_self tm_used_host = Inl AttributeError"
proof -
  have f: "files tm_used_host derived_json_path
      = Some (JsonFile \<lparr>rules = Some [user_rule, stale_rule, nameless_rule],
                         other_keys = Map.empty\<rparr>)"
    by (simp add: tm_used_host_def used_host_def)
  show ?thesis
    by (simp add: generate_color_scheme_async_json_def tm_original_eval tm_resource_eval
          tm_unfound_eval f tm_self_fields tm_new_scheme_path load_theme_def
          merge_old_rules_def tm_second_differ)
qed

section \<open>The claims\<close>

subsection \<open>C1\<close>

text \<open>
  C1. For a dictionary \<open>R\<close> of required scopes and a rule list \<open>D\<close>, whose rules may
  each declare several scopes separated by white space, \<open>parse_scheme_json\<close> returns
  \<open>R\<close> restricted to the scopes that no rule of \<open>D\<close> declares, in the order of \<open>R\<close>.
  The result depends on \<open>D\<close> only through the set of declared scopes, so the grouping of
  the scopes into rules does not matter, and it is empty when every required scope is
  declared.
\<close>

theorem parse_scheme_json_diff:
  "\<exists>res. parse_scheme_json (NDict R) D = Inr res
     \<and> res = filter (\<lambda>(k, v). k \<notin> scopes_declared_in D) R
     \<and> map_of res = map_of R |` (- scopes_declared_in D)
     \<and> set (dict_keys res) = set (dict_keys R) - scopes_declared_in D
     \<and> (set (dict_keys R) \<subseteq> scopes_declared_in D \<longrightarrow> res = [])
     \<and> (scopes_declared_in D' = scopes_declared_in D \<longrightarrow>
          parse_scheme_json (NDict R) D' = Inr res)"
proof -
  let ?res = "filter (\<lambda>(k, v). k \<notin> scopes_declared_in D) R"
  have 1: "parse_scheme_json (NDict R) D = Inr ?res"
    by (rule parse_scheme_json_dict)
  have 2: "map_of ?res = map_of R |` (- scopes_declared_in D)"
    by (induction R) (auto simp: fun_eq_iff restrict_map_def)
  have 3: "set (dict_keys ?res) = set (dict_keys R) - scopes_declared_in D"
    by (force simp: dict_keys_def)
  have 4: "set (dict_keys R) \<subseteq> scopes_declared_in D \<longrightarrow> ?res = []"
    by (force simp: dict_keys_def filter_empty_conv)
  have 5: "scopes_declared_in D' = scopes_declared_in D \<longrightarrow>
      parse_scheme_json (NDict R) D' = Inr ?res"
    by (simp add: parse_scheme_json_dict)
  from 1 2 3 4 5 show ?thesis by blast
qed

theorem parse_scheme_json_diff_witness:
  "parse_scheme_json
     (NDict [(''sublimelinter.mark.error'', error_style), (''sublimelinter.mark.warning'', gutter_style)])
     [[''scope'' \<mapsto> ''comment  sublimelinter.mark.warning''], [''name'' \<mapsto> ''x''],
      [''scope'' \<mapsto> ''sublimelinter.mark.error'']] = Inr []
   \<and> parse_scheme_json
     (NDict [(''sublimelinter.mark.error'', error_style), (''sublimelinter.mark.warning'', gutter_style)])
     [[''scope'' \<mapsto> ''comment  sublimelinter.mark.warning'']]
     = Inr [(''sublimelinter.mark.error'', error_style)]"
proof -
  let ?R = "[(''sublimelinter.mark.error'', error_style), (''sublimelinter.mark.warning'', gutter_style)]"
  let ?D1 = "[[''scope'' \<mapsto> ''comment  sublimelinter.mark.warning''], [''name'' \<mapsto> ''x''],
      [''scope'' \<mapsto> ''sublimelinter.mark.error'']] :: rule list"
  let ?D2 = "[[''scope'' \<mapsto> ''comment  sublimelinter.mark.warning'']] :: rule list"
  have d1: "scopes_declared_in ?D1 = {''comment'', ''sublimelinter.mark.warning'', ''sublimelinter.mark.error''}"
    by (auto simp: scopes_declared_in_def run_simps)
  have d2: "scopes_declared_in ?D2 = {''comment'', ''sublimelinter.mark.warning''}"
    by (simp add: scopes_declared_in_def run_simps)
  have k: "set (dict_keys ?R) \<subseteq> scopes_declared_in ?D1"
    by (simp add: d1 dict_keys_def)
  from parse_scheme_json_diff [of ?R ?D1 ?D1] k
  have a: "parse_scheme_json (NDict ?R) ?D1 = Inr []" by auto
  from parse_scheme_json_diff [of ?R ?D2 ?D2]
  have b: "parse_scheme_json (NDict ?R) ?D2 = Inr [(''sublimelinter.mark.error'', error_style)]"
    by (simp add: d2)
  from a b show ?thesis by simp
qed

subsection \<open>C2\<close>

text \<open>
  C2. When a pass of the JSON engine that writes (it found something to include and ran
  to its end) finds a derived document on disk, the document it writes has as rules the
  old rules that \<open>remove_dyn_rules\<close> keeps, none of which is a dynamic rule, followed by
  the current dynamic nodes: every dynamic rule of the written document is one of the
  current pass, and when the registry was filled by \<open>assemble_node\<close> the dynamic rules of
  the written document are exactly the current dynamic nodes, in their order.
\<close>

theorem json_pass_purges_stale_rules:
  "generate_color_scheme_async_json e self h = Inr h'
   \<and> \<not> nothing_to_include e self h
   \<and> files h (new_scheme_path self) = Some (JsonFile t)
   \<longrightarrow> (\<exists>old. rules t = Some old
          \<and> files h' (new_scheme_path self)
              = Some (JsonFile (t\<lparr>rules :=
                  Some (remove_dyn_rules old @ dict_values (dynamic_nodes self))\<rparr>))
          \<and> list_all (\<lambda>r. \<not> is_dynamic_rule r) (remove_dyn_rules old)
          \<and> filter is_dynamic_rule (remove_dyn_rules old @ dict_values (dynamic_nodes self))
              = filter is_dynamic_rule (dict_values (dynamic_nodes self))
          \<and> (dyn_registry_ok (dynamic_nodes self) \<longrightarrow>
                filter is_dynamic_rule
                  (remove_dyn_rules old @ dict_values (dynamic_nodes self))
                = dict_values (dynamic_nodes self)))"
proof
  assume a: "generate_color_scheme_async_json e self h = Inr h'
   \<and> \<not> nothing_to_include e self h
   \<and> files h (new_scheme_path self) = Some (JsonFile t)"
  with json_pass_written [of e self h h'] obtain kept msgs old where
    old: "rules t = Some old" and kept: "kept = remove_dyn_rules old"
    and h': "h' = set_scheme_path self (scheme_orig (paths self))
            (h\<lparr>printed := printed h @ msgs,
               files := (files h)(new_scheme_path self \<mapsto>
                 JsonFile (t\<lparr>rules := Some (kept @ dict_values (dynamic_nodes self))\<rparr>))\<rparr>)"
    by auto
  have w: "files h' (new_scheme_path self)
      = Some (JsonFile (t\<lparr>rules :=
                  Some (remove_dyn_rules old @ dict_values (dynamic_nodes self))\<rparr>))"
    by (simp add: h' kept)
  have none: "list_all (\<lambda>r. \<not> is_dynamic_rule r) (remove_dyn_rules old)"
    by (simp add: list_all_iff kept_not_dynamic)
  then have f0: "filter is_dynamic_rule (remove_dyn_rules old) = []"
    by (simp add: filter_empty_conv list_all_iff)
  have f: "filter is_dynamic_rule (remove_dyn_rules old @ dict_values (dynamic_nodes self))
      = filter is_dynamic_rule (dict_values (dynamic_nodes self))"
    by (simp add: f0)
  have g: "dyn_registry_ok (dynamic_nodes self) \<longrightarrow>
      filter is_dynamic_rule (remove_dyn_rules old @ dict_values (dynamic_nodes self))
        = dict_values (dynamic_nodes self)"
    by (simp add: f0 registry_values_filter)
  from old w none f g show "\<exists>old. rules t = Some old
          \<and> files h' (new_scheme_path self)
              = Some (JsonFile (t\<lparr>rules :=
                  Some (remove_dyn_rules old @ dict_values (dynamic_nodes self))\<rparr>))
          \<and> list_all (\<lambda>r. \<not> is_dynamic_rule r) (remove_dyn_rules old)
          \<and> filter is_dynamic_rule (remove_dyn_rules old @ dict_values (dynamic_nodes self))
              = filter is_dynamic_rule (dict_values (dynamic_nodes self))
          \<and> (dyn_registry_ok (dynamic_nodes self) \<longrightarrow>
                filter is_dynamic_rule
                  (remove_dyn_rules old @ dict_values (dynamic_nodes self))
                = dict_values (dynamic_nodes self))"
    by blast
qed

theorem json_pass_purges_stale_rules_witness:
  "generate_color_scheme_async_json ex_env json_self used_host = Inr used_host_after
   \<and> \<not> nothing_to_include ex_env json_self used_host
   \<and> files used_host (new_scheme_path json_self)
       = Some (JsonFile \<lparr>rules = Some [user_rule, stale_rule, nameless_rule],
                         other_keys = Map.empty\<rparr>)
   \<and> is_dynamic_rule stale_rule
   \<and> dyn_registry_ok (dynamic_nodes json_self)
   \<and> files used_host_after (new_scheme_path json_self)
       = Some (JsonFile \<lparr>rules = Some [user_rule, gutter_node], other_keys = Map.empty\<rparr>)
   \<and> filter is_dynamic_rule [user_rule, gutter_node] = [gutter_node]"
proof -
  let ?t = "\<lparr>rules = Some [user_rule, stale_rule, nameless_rule],
             other_keys = Map.empty\<rparr> :: unit theme"
  have n: "\<not> nothing_to_include ex_env json_self used_host"
    by (simp add: nothing_to_include_def original_eval resource_eval unfound_eval
          json_self_fields)
  have f: "files used_host (new_scheme_path json_self) = Some (JsonFile ?t)"
    by (simp add: json_paths_eval files_eval)
  have s: "is_dynamic_rule stale_rule"
    by (simp add: is_dynamic_rule_def stale_rule_def re_search_DYN_PAT [symmetric] run_simps)
  have dv: "dict_values (dynamic_nodes json_self) = [gutter_node]"
    by (simp add: json_self_fields dict_values_def gutter_node_def)
  have rt: "rules ?t = Some [user_rule, stale_rule, nameless_rule]"
    by simp
  from json_pass_purges_stale_rules [of ex_env json_self used_host used_host_after ?t]
    json_used_run n f
  obtain old where o: "rules ?t = Some old"
    and w0: "files used_host_after (new_scheme_path json_self)
       = Some (JsonFile (?t\<lparr>rules := Some (remove_dyn_rules old
            @ dict_values (dynamic_nodes json_self))\<rparr>))"
    and d0: "dyn_registry_ok (dynamic_nodes json_self) \<longrightarrow>
       filter is_dynamic_rule (remove_dyn_rules old
            @ dict_values (dynamic_nodes json_self)) = dict_values (dynamic_nodes json_self)"
    by blast
  from o rt have old: "old = [user_rule, stale_rule, nameless_rule]"
    by (simp only: option.inject)
  from w0 have w: "files used_host_after (new_scheme_path json_self)
       = Some (JsonFile \<lparr>rules = Some [user_rule, gutter_node], other_keys = Map.empty\<rparr>)"
    unfolding old kept_eval dv by simp
  from d0 json_self_registry_ok
  have d: "filter is_dynamic_rule [user_rule, gutter_node] = [gutter_node]"
    unfolding old kept_eval dv by (simp only: append.simps)
  from json_used_run n f s json_self_registry_ok w d show ?thesis by blast
qed

text \<open>
  C2, counterexample: a pass with nothing to include. Every static scope is found in
  the original theme and there is no dynamic node, so the pass returns at line 299; the
  derived document on disk keeps the dynamic rule of the earlier pass.
\<close>

theorem json_idle_pass_keeps_stale_rule:
  "dynamic_nodes idle_self = []
   \<and> files used_host ''/st/Packages/User/Monokai.sublime-color-scheme''
       = Some (JsonFile \<lparr>rules = Some [user_rule, stale_rule, nameless_rule],
                         other_keys = Map.empty\<rparr>)
   \<and> stale_rule ''scope'' = Some ''sublimelinter.gutter.style_007''
   \<and> is_dynamic_rule stale_rule
   \<and> generate_color_scheme_async_json ex_env idle_self used_host = Inr used_host"
proof -
  have a: "dynamic_nodes idle_self = []"
    by (simp add: idle_self_def assemble_node_json_def run_simps)
  have b: "files used_host ''/st/Packages/User/Monokai.sublime-color-scheme''
       = Some (JsonFile \<lparr>rules = Some [user_rule, stale_rule, nameless_rule],
                         other_keys = Map.empty\<rparr>)"
    by (simp add: used_host_def derived_json_path_def)
  have c: "stale_rule ''scope'' = Some ''sublimelinter.gutter.style_007''"
    by (simp add: stale_rule_def)
  have d: "is_dynamic_rule stale_rule"
    by (simp add: is_dynamic_rule_def stale_rule_def re_search_DYN_PAT [symmetric] run_simps)
  have e: "generate_color_scheme_async_json ex_env idle_self used_host = Inr used_host"
    using idle_eval by (rule json_pass_skip)
  from a b c d e show ?thesis by blast
qed

subsection \<open>C3\<close>

text \<open>
  C3. \<open>assemble_node\<close> of either engine decides with \<open>re.match(DYN_PAT, scope)\<close>, a
  match at the first character: a scope that starts with \<open>sublimelinter.\<close>, a word,
  \<open>.style_\<close> and at least three digits has its node stored in \<open>dynamic_nodes\<close> under
  the scope and \<open>static_nodes\<close> is left as it was; every other scope has its node stored
  in \<open>static_nodes\<close> under the scope and \<open>dynamic_nodes\<close> is left as it was.
\<close>

theorem assemble_node_routing:
  "(starts_with_dyn_pattern scope \<longrightarrow>
      dynamic_nodes (assemble_node_json sj scope i n)
        = dict_set scope (json_husk scope i n) (dynamic_nodes sj)
      \<and> map_of (dynamic_nodes (assemble_node_json sj scope i n)) scope
        = Some (json_husk scope i n)
      \<and> static_nodes (assemble_node_json sj scope i n) = static_nodes sj
      \<and> dynamic_nodes (assemble_node_xml e sx scope i n)
        = dict_set scope (xml_root e scope i n) (dynamic_nodes sx)
      \<and> map_of (dynamic_nodes (assemble_node_xml e sx scope i n)) scope
        = Some (xml_root e scope i n)
      \<and> static_nodes (assemble_node_xml e sx scope i n) = static_nodes sx)
   \<and> (\<not> starts_with_dyn_pattern scope \<longrightarrow>
      static_nodes (assemble_node_json sj scope i n)
        = dict_set scope (json_husk scope i n) (static_nodes sj)
      \<and> map_of (static_nodes (assemble_node_json sj scope i n)) scope
        = Some (json_husk scope i n)
      \<and> dynamic_nodes (assemble_node_json sj scope i n) = dynamic_nodes sj
      \<and> static_nodes (assemble_node_xml e sx scope i n)
        = dict_set scope (xml_root e scope i n) (static_nodes sx)
      \<and> map_of (static_nodes (assemble_node_xml e sx scope i n)) scope
        = Some (xml_root e scope i n)
      \<and> dynamic_nodes (assemble_node_xml e sx scope i n) = dynamic_nodes sx)"
  by (simp add: assemble_node_json_def assemble_node_xml_def re_match_DYN_PAT map_of_dict_set)

theorem assemble_node_routing_witness:
  "starts_with_dyn_pattern ''sublimelinter.gutter.style_001''
   \<and> \<not> starts_with_dyn_pattern ''sublimelinter.mark.error''
   \<and> map_of (dynamic_nodes json_self) ''sublimelinter.gutter.style_001''
       = Some (json_husk ''sublimelinter.gutter.style_001'' gutter_style None)
   \<and> map_of (static_nodes json_self) ''sublimelinter.mark.error''
       = Some (json_husk ''sublimelinter.mark.error'' error_style None)
   \<and> map_of (dynamic_nodes xml_self) ''sublimelinter.gutter.style_001''
       = Some (xml_root ex_env ''sublimelinter.gutter.style_001'' gutter_style None)"
proof -
  have d: "starts_with_dyn_pattern ''sublimelinter.gutter.style_001''"
    by (simp add: re_match_DYN_PAT [symmetric] run_simps)
  have s: "\<not> starts_with_dyn_pattern ''sublimelinter.mark.error''"
    by (simp add: re_match_DYN_PAT [symmetric] run_simps)
  let ?j0 = "\<lparr>static_nodes = [], dynamic_nodes = [], scheme = monokai_user_json,
      paths = json_paths\<rparr> :: rule scheme_obj"
  let ?x0 = "\<lparr>static_nodes = [], dynamic_nodes = [], scheme = monokai_xml,
      paths = xml_paths\<rparr> :: xml scheme_obj"
  let ?j1 = "assemble_node_json ?j0 ''sublimelinter.mark.error'' error_style None"
  from assemble_node_routing
    [of "''sublimelinter.mark.error''" ?j0 error_style None ex_env ?x0] s
  have 1: "map_of (static_nodes ?j1) ''sublimelinter.mark.error''
       = Some (json_husk ''sublimelinter.mark.error'' error_style None)"
    by blast
  from assemble_node_routing
    [of "''sublimelinter.gutter.style_001''" ?j1 gutter_style None ex_env ?x0] d
  have 2: "map_of (dynamic_nodes json_self) ''sublimelinter.gutter.style_001''
       = Some (json_husk ''sublimelinter.gutter.style_001'' gutter_style None)"
    and 3: "static_nodes json_self = static_nodes ?j1"
    and 4: "map_of (dynamic_nodes xml_self) ''sublimelinter.gutter.style_001''
       = Some (xml_root ex_env ''sublimelinter.gutter.style_001'' gutter_style None)"
    unfolding json_self_def xml_self_def by blast+
  from d s 1 2 3 4 show ?thesis by simp
qed

subsection \<open>C4\<close>

text \<open>
  C4, at a failing input: the JSON engine on a tmTheme that lacks the static scope. The
  first pass finds no derived file, writes one with the dynamic node and leaves the
  preference as it was, so the second pass has the same scheme and paths. It finds the
  file, gives the list of scopes that \<open>parse_scheme_xml\<close> returned to
  \<open>parse_scheme_json\<close> (line 317), and \<open>nodes.items()\<close> (line 346) raises: the second run
  produces no output.
\<close>

theorem json_tmtheme_second_pass_raises:
  "ext (paths tm_self) = ''.tmTheme''
   \<and> scheme tm_self = color_scheme tm_fresh_host
   \<and> files tm_fresh_host ''/st/Packages/User/Monokai.sublime-color-scheme'' = None
   \<and> generate_color_scheme_async_json ex_env tm_self tm_fresh_host = Inr tm_host_after
   \<and> files tm_host_after ''/st/Packages/User/Monokai.sublime-color-scheme''
       = Some (JsonFile \<lparr>rules = Some [gutter_node], other_keys = Map.empty\<rparr>)
   \<and> color_scheme tm_host_after = color_scheme tm_fresh_host
   \<and> generate_color_scheme_async_json ex_env tm_self tm_host_after = Inl AttributeError"
proof -
  have a: "ext (paths tm_self) = ''.tmTheme''"
    by (simp add: tm_self_fields tm_paths_def)
  have b: "scheme tm_self = color_scheme tm_fresh_host"
    by (simp add: tm_self_fields tm_fresh_host_def)
  have c: "files tm_fresh_host ''/st/Packages/User/Monokai.sublime-color-scheme'' = None"
    by (simp add: tm_fresh_host_def fresh_host_def)
  have d: "files tm_host_after ''/st/Packages/User/Monokai.sublime-color-scheme''
       = Some (JsonFile \<lparr>rules = Some [gutter_node], other_keys = Map.empty\<rparr>)"
    by (simp add: tm_host_after_def derived_json_path_def)
  have e: "color_scheme tm_host_after = color_scheme tm_fresh_host"
    by (simp add: tm_host_after_def)
  from a b c tm_first_run d e tm_second_run show ?thesis by blast
qed

subsection \<open>C5\<close>

text \<open>
  C5, engine by engine. A pass of the XML engine that runs to its end has written
  the file \<open>mod_scheme_path\<close> and then calls \<open>set_scheme_path\<close> with the
  Packages-relative path made of \<open>usr_dir_rel\<close> and the base name of that file. A pass
  of the JSON engine that writes has written the file \<open>new_scheme_path\<close> and then calls
  \<open>set_scheme_path\<close> with \<open>paths["scheme_orig"]\<close>, the path of the original theme. When
  \<open>self.scheme\<close> is the active preference, the preference after the pass is that
  argument.
\<close>

theorem pass_sets_scheme_path:
  "(generate_color_scheme_async_xml e sx h = Inr h' \<longrightarrow>
      (\<exists>content msgs.
         h' = set_scheme_path sx
                (packages_relative_path e
                   (path_join (usr_dir_rel (paths sx)) (basename (mod_scheme_path sx))))
                (h\<lparr>printed := printed h @ msgs,
                   files := (files h)(mod_scheme_path sx \<mapsto> TextFile content)\<rparr>))
      \<and> (color_scheme h = scheme sx \<longrightarrow>
            color_scheme h' = packages_relative_path e
              (path_join (usr_dir_rel (paths sx)) (basename (mod_scheme_path sx)))))
   \<and> (generate_color_scheme_async_json e sj h = Inr h'' \<and> \<not> nothing_to_include e sj h \<longrightarrow>
      (\<exists>theme msgs.
         h'' = set_scheme_path sj (scheme_orig (paths sj))
                (h\<lparr>printed := printed h @ msgs,
                   files := (files h)(new_scheme_path sj \<mapsto> JsonFile theme)\<rparr>))
      \<and> (color_scheme h = scheme sj \<longrightarrow> color_scheme h'' = scheme_orig (paths sj)))"
proof (intro conjI impI)
  assume "generate_color_scheme_async_xml e sx h = Inr h'"
  from xml_pass_written [OF this] obtain src plist plist' msgs where
    h': "h' = set_scheme_path sx
            (packages_relative_path e
               (path_join (usr_dir_rel (paths sx)) (basename (mod_scheme_path sx))))
            (h\<lparr>printed := printed h @ msgs,
               files := (files h)(mod_scheme_path sx \<mapsto>
                 TextFile (COLOR_SCHEME_PREAMBLE @ xml_tostring e plist'))\<rparr>)"
    by blast
  then show "\<exists>content msgs.
         h' = set_scheme_path sx
                (packages_relative_path e
                   (path_join (usr_dir_rel (paths sx)) (basename (mod_scheme_path sx))))
                (h\<lparr>printed := printed h @ msgs,
                   files := (files h)(mod_scheme_path sx \<mapsto> TextFile content)\<rparr>)"
    by blast
  assume "color_scheme h = scheme sx"
  then show "color_scheme h' = packages_relative_path e
              (path_join (usr_dir_rel (paths sx)) (basename (mod_scheme_path sx)))"
    unfolding h' by (intro set_scheme_path_color) simp
next
  assume "generate_color_scheme_async_json e sj h = Inr h'' \<and> \<not> nothing_to_include e sj h"
  with json_pass_written [of e sj h h''] obtain theme kept msgs where
    h'': "h'' = set_scheme_path sj (scheme_orig (paths sj))
            (h\<lparr>printed := printed h @ msgs,
               files := (files h)(new_scheme_path sj \<mapsto>
                 JsonFile (theme\<lparr>rules := Some (kept @ dict_values (dynamic_nodes sj))\<rparr>))\<rparr>)"
    by blast
  then show "\<exists>theme msgs.
         h'' = set_scheme_path sj (scheme_orig (paths sj))
                (h\<lparr>printed := printed h @ msgs,
                   files := (files h)(new_scheme_path sj \<mapsto> JsonFile theme)\<rparr>)"
    by blast
  assume "color_scheme h = scheme sj"
  then show "color_scheme h'' = scheme_orig (paths sj)"
    unfolding h'' by (intro set_scheme_path_color) simp
qed

theorem pass_sets_scheme_path_witness:
  "generate_color_scheme_async_xml ex_env xml_self xml_host = Inr xml_host_after
   \<and> color_scheme xml_host = scheme xml_self
   \<and> color_scheme xml_host_after = ''Packages/User/SublimeLinter/Monokai (SL).hidden-tmTheme''
   \<and> generate_color_scheme_async_json ex_env json_self fresh_host = Inr fresh_host_after
   \<and> \<not> nothing_to_include ex_env json_self fresh_host
   \<and> color_scheme fresh_host = scheme json_self
   \<and> color_scheme fresh_host_after = scheme_orig (paths json_self)"
proof -
  note t = pass_sets_scheme_path
    [of ex_env xml_self xml_host xml_host_after json_self fresh_host_after]
  note u = pass_sets_scheme_path
    [of ex_env xml_self fresh_host xml_host_after json_self fresh_host_after]
  have cx: "color_scheme xml_host = scheme xml_self"
    by (simp add: xml_host_def xml_self_fields)
  have cj: "color_scheme fresh_host = scheme json_self"
    by (simp add: fresh_host_def json_self_fields)
  have n: "\<not> nothing_to_include ex_env json_self fresh_host"
    by (simp add: nothing_to_include_def original_eval resource_eval unfound_eval
          json_self_fields)
  have rel: "packages_relative_path ex_env
       (path_join (usr_dir_rel (paths xml_self)) (basename (mod_scheme_path xml_self)))
     = ''Packages/User/SublimeLinter/Monokai (SL).hidden-tmTheme''"
    by (simp add: packages_relative_path_def ex_env_def xml_paths_eval derived_xml_path_def
          xml_self_fields xml_paths_def path_join_def basename_def suffix_to_prefix)
  from t xml_run cx
  have "color_scheme xml_host_after = packages_relative_path ex_env
       (path_join (usr_dir_rel (paths xml_self)) (basename (mod_scheme_path xml_self)))"
    by blast
  then have a: "color_scheme xml_host_after
      = ''Packages/User/SublimeLinter/Monokai (SL).hidden-tmTheme''"
    unfolding rel .
  from u json_fresh_run n cj
  have b: "color_scheme fresh_host_after = scheme_orig (paths json_self)"
    by blast
  from xml_run cx a json_fresh_run n cj b show ?thesis by blast
qed

text \<open>
  C5, counterexample for the JSON engine: the preference names the derived file
  \<open>Packages/User/Monokai.sublime-color-scheme\<close>; the pass writes that file in the user
  directory and then sets the preference to the original theme of the package
  \<open>Color Scheme - Default\<close>.
\<close>

theorem json_pass_points_at_original:
  "color_scheme used_host = ''Packages/User/Monokai.sublime-color-scheme''
   \<and> generate_color_scheme_async_json ex_env json_self used_host = Inr used_host_after
   \<and> files used_host_after ''/st/Packages/User/Monokai.sublime-color-scheme''
       = Some (JsonFile \<lparr>rules = Some [user_rule, gutter_node], other_keys = Map.empty\<rparr>)
   \<and> files used_host_after ''Packages/Color Scheme - Default/Monokai.sublime-color-scheme''
       = None
   \<and> color_scheme used_host_after
       = ''Packages/Color Scheme - Default/Monokai.sublime-color-scheme''"
proof -
  have a: "color_scheme used_host = ''Packages/User/Monokai.sublime-color-scheme''"
    by (simp add: used_host_def fresh_host_def monokai_user_json_def)
  have b: "files used_host_after ''/st/Packages/User/Monokai.sublime-color-scheme''
       = Some (JsonFile \<lparr>rules = Some [user_rule, gutter_node], other_keys = Map.empty\<rparr>)"
    "files used_host_after ''Packages/Color Scheme - Default/Monokai.sublime-color-scheme''
       = None"
    "color_scheme used_host_after
       = ''Packages/Color Scheme - Default/Monokai.sublime-color-scheme''"
    by (simp_all add: used_host_after_def monokai_json_def derived_json_path_def)
  from a json_used_run b show ?thesis by blast
qed

subsection \<open>C6\<close>

text \<open>
  C6, engine by engine. For a theme name without \<open>/\<close>, the XML engine writes the file
  named \<open><name> (SL).hidden-tmTheme\<close> and the JSON engine the file named
  \<open><name>.sublime-color-scheme\<close>, without \<open>(SL)\<close>. Each path is a function of the
  directory and the name alone, and a pass that runs to its end changes no file but that
  one, so repeated passes overwrite it.
\<close>

theorem derived_file_name:
  "(CHR ''/'' \<notin> set (scheme_name (paths sx)) \<longrightarrow>
      basename (mod_scheme_path sx) = scheme_name (paths sx) @ '' (SL).hidden-tmTheme'')
   \<and> (CHR ''/'' \<notin> set (scheme_name (paths sj)) \<longrightarrow>
      basename (new_scheme_path sj) = scheme_name (paths sj) @ ''.sublime-color-scheme'')
   \<and> (usr_dir_abs (paths sx') = usr_dir_abs (paths sx)
        \<and> scheme_name (paths sx') = scheme_name (paths sx)
        \<longrightarrow> mod_scheme_path sx' = mod_scheme_path sx)
   \<and> (usr_dir (paths sj') = usr_dir (paths sj)
        \<and> scheme_name (paths sj') = scheme_name (paths sj)
        \<longrightarrow> new_scheme_path sj' = new_scheme_path sj)
   \<and> (generate_color_scheme_async_xml e sx h = Inr h' \<and> p \<noteq> mod_scheme_path sx
        \<longrightarrow> files h' p = files h p)
   \<and> (generate_color_scheme_async_json e sj h = Inr h'' \<and> p \<noteq> new_scheme_path sj
        \<longrightarrow> files h'' p = files h p)"
proof (intro conjI impI)
  assume "CHR ''/'' \<notin> set (scheme_name (paths sx))"
  then show "basename (mod_scheme_path sx) = scheme_name (paths sx) @ '' (SL).hidden-tmTheme''"
    unfolding mod_scheme_path_def by (subst basename_path_join) simp_all
next
  assume "CHR ''/'' \<notin> set (scheme_name (paths sj))"
  then show "basename (new_scheme_path sj) = scheme_name (paths sj) @ ''.sublime-color-scheme''"
    unfolding new_scheme_path_def by (subst basename_path_join) simp_all
next
  assume "usr_dir_abs (paths sx') = usr_dir_abs (paths sx)
        \<and> scheme_name (paths sx') = scheme_name (paths sx)"
  then show "mod_scheme_path sx' = mod_scheme_path sx"
    by (simp add: mod_scheme_path_def)
next
  assume "usr_dir (paths sj') = usr_dir (paths sj)
        \<and> scheme_name (paths sj') = scheme_name (paths sj)"
  then show "new_scheme_path sj' = new_scheme_path sj"
    by (simp add: new_scheme_path_def)
next
  assume a: "generate_color_scheme_async_xml e sx h = Inr h' \<and> p \<noteq> mod_scheme_path sx"
  then have "generate_color_scheme_async_xml e sx h = Inr h'" by simp
  from xml_pass_written [OF this] a show "files h' p = files h p"
    by auto
next
  assume a: "generate_color_scheme_async_json e sj h = Inr h'' \<and> p \<noteq> new_scheme_path sj"
  show "files h'' p = files h p"
  proof (cases "nothing_to_include e sj h")
    case True
    from json_pass_skip [OF this] a show ?thesis by simp
  next
    case False
    with json_pass_written [of e sj h h''] a show ?thesis by auto
  qed
qed

theorem derived_file_name_witness:
  "CHR ''/'' \<notin> set (scheme_name (paths xml_self))
   \<and> basename (mod_scheme_path xml_self) = ''Monokai (SL).hidden-tmTheme''
   \<and> CHR ''/'' \<notin> set (scheme_name (paths json_self))
   \<and> basename (new_scheme_path json_self) = ''Monokai.sublime-color-scheme''
   \<and> generate_color_scheme_async_json ex_env json_self used_host = Inr used_host_after
   \<and> ''/st/Packages/User/Default.sublime-color-scheme'' \<noteq> new_scheme_path json_self
   \<and> files used_host_after ''/st/Packages/User/Default.sublime-color-scheme''
       = files used_host ''/st/Packages/User/Default.sublime-color-scheme''"
proof -
  note t = derived_file_name
    [of xml_self json_self xml_self json_self ex_env used_host used_host_after
        "''/st/Packages/User/Default.sublime-color-scheme''" used_host_after]
  have x: "CHR ''/'' \<notin> set (scheme_name (paths xml_self))"
    and j: "CHR ''/'' \<notin> set (scheme_name (paths json_self))"
    by (simp_all add: xml_self_fields json_self_fields xml_paths_def json_paths_def)
  have nx: "scheme_name (paths xml_self) = ''Monokai''"
    and nj: "scheme_name (paths json_self) = ''Monokai''"
    by (simp_all add: xml_self_fields json_self_fields xml_paths_def json_paths_def)
  from t x have a: "basename (mod_scheme_path xml_self) = ''Monokai (SL).hidden-tmTheme''"
    unfolding nx by simp
  from t j have b: "basename (new_scheme_path json_self) = ''Monokai.sublime-color-scheme''"
    unfolding nj by simp
  have ne: "''/st/Packages/User/Default.sublime-color-scheme'' \<noteq> new_scheme_path json_self"
    by (simp add: json_paths_eval derived_json_path_def)
  from t json_used_run ne
  have c: "files used_host_after ''/st/Packages/User/Default.sublime-color-scheme''
       = files used_host ''/st/Packages/User/Default.sublime-color-scheme''"
    by blast
  from x a j b json_used_run ne c show ?thesis by blast
qed

text \<open>
  C6, counterexample for the JSON engine: for the theme named \<open>Monokai\<close> the pass writes
  \<open>Monokai.sublime-color-scheme\<close>; there is no file \<open>Monokai (SL).sublime-color-scheme\<close>.
\<close>

theorem json_file_name_without_SL:
  "scheme_name (paths json_self) = ''Monokai''
   \<and> generate_color_scheme_async_json ex_env json_self fresh_host = Inr fresh_host_after
   \<and> files fresh_host ''/st/Packages/User/Monokai.sublime-color-scheme'' = None
   \<and> files fresh_host_after ''/st/Packages/User/Monokai.sublime-color-scheme''
       = Some (JsonFile \<lparr>rules = Some [gutter_node], other_keys = Map.empty\<rparr>)
   \<and> files fresh_host_after ''/st/Packages/User/Monokai (SL).sublime-color-scheme'' = None
   \<and> basename (new_scheme_path json_self) = ''Monokai.sublime-color-scheme''
   \<and> basename (new_scheme_path json_self) \<noteq> ''Monokai (SL).sublime-color-scheme''"
proof -
  have a: "scheme_name (paths json_self) = ''Monokai''"
    by (simp add: json_self_fields json_paths_def)
  have b: "files fresh_host ''/st/Packages/User/Monokai.sublime-color-scheme'' = None"
    by (simp add: fresh_host_def)
  have c: "files fresh_host_after ''/st/Packages/User/Monokai.sublime-color-scheme''
       = Some (JsonFile \<lparr>rules = Some [gutter_node], other_keys = Map.empty\<rparr>)"
    "files fresh_host_after ''/st/Packages/User/Monokai (SL).sublime-color-scheme'' = None"
    by (simp_all add: fresh_host_after_def derived_json_path_def)
  have d: "basename (new_scheme_path json_self) = ''Monokai.sublime-color-scheme''"
    by (simp add: json_paths_eval derived_json_path_def basename_def)
  then have e: "basename (new_scheme_path json_self) \<noteq> ''Monokai (SL).sublime-color-scheme''"
    by simp
  from a json_fresh_run b c d e show ?thesis by blast
qed

subsection \<open>C7\<close>

text \<open>
  C7, at a failing input: the JSON engine on a tmTheme that lacks the static scope, with
  a dynamic node to add and a derived file already there. There is something to
  include, but the pass raises at line 346, called from line 317, before it writes.
\<close>

theorem json_tmtheme_pass_raises_before_write:
  "first_unfound ex_env tm_self (Text monokai_xml_text)
     = Inr (NList [''sublimelinter.mark.error''])
   \<and> dynamic_nodes tm_self = [(''sublimelinter.gutter.style_001'', gutter_node)]
   \<and> \<not> nothing_to_include ex_env tm_self tm_used_host
   \<and> files tm_used_host ''/st/Packages/User/Monokai.sublime-color-scheme''
       = Some (JsonFile \<lparr>rules = Some [user_rule, stale_rule, nameless_rule],
                         other_keys = Map.empty\<rparr>)
   \<and> generate_color_scheme_async_json ex_env tm_self tm_used_host = Inl AttributeError"
proof -
  have n: "\<not> nothing_to_include ex_env tm_self tm_used_host"
    by (simp add: nothing_to_include_def tm_original_eval tm_resource_eval tm_unfound_eval
          tm_self_fields)
  have f: "files tm_used_host ''/st/Packages/User/Monokai.sublime-color-scheme''
       = Some (JsonFile \<lparr>rules = Some [user_rule, stale_rule, nameless_rule],
                         other_keys = Map.empty\<rparr>)"
    by (simp add: tm_used_host_def used_host_def derived_json_path_def)
  from tm_unfound_eval tm_self_fields(2) n f tm_used_run show ?thesis by blast
qed

subsection \<open>C8\<close>

text \<open>
  C8, for the JSON engine: in a pass of the JSON engine, an extension that is neither
  \<open>.sublime-color-scheme\<close> nor ends in \<open>tmTheme\<close> makes the pass raise before any effect,
  \<open>Exception\<close> at line 295 when the original theme could be loaded. The XML engine does
  not look at the extension.
\<close>

theorem json_pass_unknown_extension_raises:
  "ext (paths self) \<noteq> ''.sublime-color-scheme'' \<and> \<not> suffix ''tmTheme'' (ext (paths self))
   \<longrightarrow> generate_color_scheme_async_json e self h
       = (case load_resource h (get_original_theme h (scheme self)) of
            None \<Rightarrow> Inl IOError
          | Some scheme_text \<Rightarrow> Inl UnknownExtension)"
  by (simp add: generate_color_scheme_async_json_def first_unfound_def split: option.splits)

theorem json_pass_unknown_extension_raises_witness:
  "ext (paths odd_self) \<noteq> ''.sublime-color-scheme''
   \<and> \<not> suffix ''tmTheme'' (ext (paths odd_self))
   \<and> generate_color_scheme_async_json ex_env odd_self fresh_host = Inl UnknownExtension"
proof -
  have a: "ext (paths odd_self) \<noteq> ''.sublime-color-scheme''"
    and b: "\<not> suffix ''tmTheme'' (ext (paths odd_self))"
    by (simp_all add: odd_eval suffix_to_prefix)
  from json_pass_unknown_extension_raises [of odd_self ex_env fresh_host] a b
  have "generate_color_scheme_async_json ex_env odd_self fresh_host = Inl UnknownExtension"
    by (simp add: odd_eval original_eval resource_eval)
  with a b show ?thesis by blast
qed

text \<open>
  C8, counterexample for the XML engine: with an original theme named \<open>Monokai.xml\<close>
  its pass runs to the end and writes the derived file.
\<close>

theorem xml_pass_ignores_extension:
  "ext (paths xml_self) = ''.xml''
   \<and> generate_color_scheme_async_xml ex_env xml_self xml_host = Inr xml_host_after
   \<and> files xml_host_after ''/st/Packages/User/SublimeLinter/Monokai (SL).hidden-tmTheme''
       = Some (TextFile (COLOR_SCHEME_PREAMBLE @ render monokai_plist_after))"
  by (simp add: xml_run xml_self_fields xml_paths_def xml_host_after_def derived_xml_path_def)

subsection \<open>C9\<close>

text \<open>
  C9, at a failing input: \<open>set_scheme_path\<close> compares its argument with \<open>self.scheme\<close>
  (line 157), the value that \<open>get_settings\<close> read, not with the preference. After a pass
  has set the preference to the original theme, \<open>self.scheme\<close> still names the derived
  file; a call with the path that is the active preference sets it again and calls
  \<open>save_settings\<close> a second time.
\<close>

theorem set_scheme_path_saves_active_path:
  "scheme json_self = ''Packages/User/Monokai.sublime-color-scheme''
   \<and> color_scheme used_host_after
       = ''Packages/Color Scheme - Default/Monokai.sublime-color-scheme''
   \<and> saved_settings used_host_after = 1
   \<and> color_scheme
        (set_scheme_path json_self
           ''Packages/Color Scheme - Default/Monokai.sublime-color-scheme'' used_host_after)
       = ''Packages/Color Scheme - Default/Monokai.sublime-color-scheme''
   \<and> saved_settings
        (set_scheme_path json_self
           ''Packages/Color Scheme - Default/Monokai.sublime-color-scheme'' used_host_after)
       = 2
   \<and> printed
        (set_scheme_path json_self
           ''Packages/Color Scheme - Default/Monokai.sublime-color-scheme'' used_host_after)
       = [missing_notice, ''New scheme path detected. Updating.'',
          ''New scheme path detected. Updating.'']"
  by (simp add: set_scheme_path_def json_self_fields used_host_after_def monokai_json_def
        monokai_user_json_def)

subsection \<open>C10\<close>

text \<open>
  C10. \<open>remove_dyn_rules\<close> keeps, in their order, exactly the rules that have a
  \<open>"scope"\<close> key whose value does not contain the dynamic pattern. A rule without a
  \<open>"scope"\<close> key is therefore dropped, and a pass of the JSON engine that writes over a
  derived document with the rules \<open>rs\<close> writes those kept rules followed by the current
  dynamic nodes.
\<close>

theorem remove_dyn_rules_keeps_scoped_static:
  "remove_dyn_rules rs = filter is_kept_rule rs
   \<and> (r ''scope'' = None \<longrightarrow> r \<notin> set (remove_dyn_rules rs))
   \<and> (generate_color_scheme_async_json e self h = Inr h'
        \<and> \<not> nothing_to_include e self h
        \<and> files h (new_scheme_path self) = Some (JsonFile t)
        \<and> rules t = Some rs
      \<longrightarrow> files h' (new_scheme_path self)
            = Some (JsonFile (t\<lparr>rules :=
                Some (filter is_kept_rule rs @ dict_values (dynamic_nodes self))\<rparr>)))"
proof (intro conjI impI)
  show "remove_dyn_rules rs = filter is_kept_rule rs"
    by (rule remove_dyn_rules_filter)
next
  assume "r ''scope'' = None"
  then show "r \<notin> set (remove_dyn_rules rs)"
    by (simp add: remove_dyn_rules_filter is_kept_rule_def)
next
  assume a: "generate_color_scheme_async_json e self h = Inr h'
        \<and> \<not> nothing_to_include e self h
        \<and> files h (new_scheme_path self) = Some (JsonFile t)
        \<and> rules t = Some rs"
  with json_pass_written [of e self h h'] obtain kept msgs where
    kept: "kept = remove_dyn_rules rs"
    and h': "h' = set_scheme_path self (scheme_orig (paths self))
            (h\<lparr>printed := printed h @ msgs,
               files := (files h)(new_scheme_path self \<mapsto>
                 JsonFile (t\<lparr>rules := Some (kept @ dict_values (dynamic_nodes self))\<rparr>))\<rparr>)"
    by auto
  show "files h' (new_scheme_path self)
            = Some (JsonFile (t\<lparr>rules :=
                Some (filter is_kept_rule rs @ dict_values (dynamic_nodes self))\<rparr>))"
    by (simp add: h' kept remove_dyn_rules_filter)
qed

theorem remove_dyn_rules_keeps_scoped_static_witness:
  "nameless_rule ''scope'' = None
   \<and> filter is_kept_rule [user_rule, stale_rule, nameless_rule] = [user_rule]
   \<and> nameless_rule \<notin> set (remove_dyn_rules [user_rule, stale_rule, nameless_rule])
   \<and> generate_color_scheme_async_json ex_env json_self used_host = Inr used_host_after
   \<and> \<not> nothing_to_include ex_env json_self used_host
   \<and> files used_host_after (new_scheme_path json_self)
       = Some (JsonFile \<lparr>rules = Some [user_rule, gutter_node], other_keys = Map.empty\<rparr>)"
proof -
  let ?rs = "[user_rule, stale_rule, nameless_rule]"
  let ?t = "\<lparr>rules = Some ?rs, other_keys = Map.empty\<rparr> :: unit theme"
  note t = remove_dyn_rules_keeps_scoped_static
    [of ?rs nameless_rule ex_env json_self used_host used_host_after ?t]
  have s: "nameless_rule ''scope'' = None"
    by (simp add: nameless_rule_def)
  have n: "\<not> nothing_to_include ex_env json_self used_host"
    by (simp add: nothing_to_include_def original_eval resource_eval unfound_eval
          json_self_fields)
  have f: "files used_host (new_scheme_path json_self) = Some (JsonFile ?t)"
    by (simp add: json_paths_eval files_eval)
  have dv: "dict_values (dynamic_nodes json_self) = [gutter_node]"
    by (simp add: json_self_fields dict_values_def gutter_node_def)
  have rt: "rules ?t = Some ?rs"
    by simp
  from t [unfolded kept_eval] have k: "filter is_kept_rule ?rs = [user_rule]"
    by (elim conjE) (erule sym)
  from t s have d: "nameless_rule \<notin> set (remove_dyn_rules ?rs)"
    by blast
  from t json_used_run n f rt
  have "files used_host_after (new_scheme_path json_self)
       = Some (JsonFile (?t\<lparr>rules :=
                Some (filter is_kept_rule ?rs @ dict_values (dynamic_nodes json_self))\<rparr>))"
    by blast
  then have w: "files used_host_after (new_scheme_path json_self)
       = Some (JsonFile \<lparr>rules = Some [user_rule, gutter_node], other_keys = Map.empty\<rparr>)"
    unfolding k dv by simp
  from s k d json_used_run n w show ?thesis by blast
qed

end
